theory Spec2Isabelle
  imports Complex_Main "HOL-Library.Sublist"
begin

section \<open>Data model\<close>

text \<open>
  The program \<^verbatim>\<open>vix_alert.py\<close> downloads the daily VIX close, smooths it with an
  exponentially weighted moving average and posts a Telegram message that says whether the
  latest close lies above its smoothed value.

  A float64 cell of a pandas object is a \<open>real option\<close>: \<open>None\<close> is NaN (an undefined
  value, what \<^verbatim>\<open>dropna\<close> removes), \<open>Some x\<close> is the number \<open>x\<close>.  Arithmetic is
  exact: the rounding of IEEE doubles and the infinities are not part of the model.
\<close>

type_synonym fval = "real option"

text \<open>The calendar date of a pandas Timestamp (the index of the downloaded frame).\<close>

record date =
  d_year :: nat
  d_month :: nat
  d_day :: nat

text \<open>A pandas Series indexed by date: the (date, value) pairs in index order.\<close>

type_synonym series = "(date \<times> fval) list"

text \<open>
  Exceptions (all subclasses of Python's \<^verbatim>\<open>Exception\<close>).  \<open>ExternalError\<close> is any
  exception a library call raises on its own account (a network error, a timeout, a JSON
  decoding error), carrying its \<^verbatim>\<open>str()\<close>; \<open>HTTPError\<close> is what
  \<^verbatim>\<open>raise_for_status\<close> raises, with status code, reason and url.
\<close>

datatype exn =
    RuntimeError string
  | ValueError string
  | AttributeError string
  | KeyError string
  | HTTPError nat string string
  | ExternalError string

section \<open>Smoothing: \<^verbatim>\<open>compute_ewma\<close>\<close>

text \<open>
  \<^verbatim>\<open>series.ewm(alpha=alpha, adjust=False).mean()\<close> is a call into pandas.  The model
  follows the library routine it runs (\<^verbatim>\<open>ewm\<close> in pandas' window aggregations) with the
  arguments this call fixes: \<^verbatim>\<open>adjust=False\<close>, and the defaults \<^verbatim>\<open>ignore_na=False\<close>,
  \<^verbatim>\<open>min_periods=0\<close> (one observation is enough for an output), no \<^verbatim>\<open>times\<close>.

  The routine keeps the running average \<open>weighted\<close>, the weight \<open>old_wt\<close> of that average
  and the number \<open>nobs\<close> of observations seen.  An undefined input leaves the average as it is
  and lets its weight decay; a defined input is averaged in with weight \<open>alpha\<close> and resets
  the weight to 1.  Until the first defined input the average is undefined.
\<close>

record ewm_acc =
  weighted :: fval
  old_wt :: real
  nobs :: nat

definition ewm_first :: "fval \<Rightarrow> ewm_acc" where
  "ewm_first v0 = \<lparr>weighted = v0, old_wt = 1, nobs = (if v0 \<noteq> None then 1 else 0)\<rparr>"

definition ewm_update :: "real \<Rightarrow> ewm_acc \<Rightarrow> fval \<Rightarrow> ewm_acc" where
  "ewm_update alpha acc cur =
     (let n = nobs acc + (if cur \<noteq> None then 1 else 0);
          old_wt_factor = 1 - alpha;
          new_wt = alpha
      in case weighted acc of
           Some w \<Rightarrow>
             (let ow = old_wt acc * old_wt_factor
              in case cur of
                   Some c \<Rightarrow>
                     \<lparr>weighted = Some (if w \<noteq> c then (ow * w + new_wt * c) / (ow + new_wt) else w),
                      old_wt = 1, nobs = n\<rparr>
                 | None \<Rightarrow> \<lparr>weighted = Some w, old_wt = ow, nobs = n\<rparr>)
         | None \<Rightarrow>
             (case cur of
                Some c \<Rightarrow> \<lparr>weighted = Some c, old_wt = old_wt acc, nobs = n\<rparr>
              | None \<Rightarrow> \<lparr>weighted = None, old_wt = old_wt acc, nobs = n\<rparr>))"

definition ewm_out :: "ewm_acc \<Rightarrow> fval" where
  "ewm_out acc = (if 1 \<le> nobs acc then weighted acc else None)"

fun ewm_loop :: "real \<Rightarrow> ewm_acc \<Rightarrow> fval list \<Rightarrow> fval list" where
  "ewm_loop alpha acc [] = []"
| "ewm_loop alpha acc (cur # rest) =
     (let acc' = ewm_update alpha acc cur in ewm_out acc' # ewm_loop alpha acc' rest)"

text \<open>
  pandas hands the routine the centre of mass \<open>com = (1 - alpha) / alpha\<close>, from which the
  routine recovers \<open>alpha = 1 / (1 + com)\<close>.
\<close>

definition ewm_mean :: "real \<Rightarrow> fval list \<Rightarrow> fval list" where
  "ewm_mean com vals =
     (case vals of
        [] \<Rightarrow> []
      | v0 # rest \<Rightarrow>
          (let alpha = 1 / (1 + com); acc = ewm_first v0
           in ewm_out acc # ewm_loop alpha acc rest))"

definition DEFAULT_LAMBDA :: real where
  "DEFAULT_LAMBDA = 97 / 100"

text \<open>
  \<^verbatim>\<open>compute_ewma(series, lambda_=0.97)\<close>.  pandas refuses an \<open>alpha\<close> outside \<open>(0, 1]\<close>
  with a \<^verbatim>\<open>ValueError\<close>.  The result keeps the index of the input.
\<close>

definition compute_ewma :: "series \<Rightarrow> real \<Rightarrow> exn + series" where
  "compute_ewma series lam =
     (let alpha = 1 - lam
      in if alpha \<le> 0 \<or> alpha > 1
         then Inl (ValueError ''alpha must satisfy: 0 < alpha <= 1'')
         else Inr (zip (map fst series) (ewm_mean ((1 - alpha) / alpha) (map snd series))))"

section \<open>Text: numbers, dates and exceptions as strings\<close>

definition digit_chr :: "nat \<Rightarrow> char" where
  "digit_chr d = ''0123456789'' ! d"

text \<open>Decimal digits of a natural number, as \<^verbatim>\<open>%d\<close> prints it.\<close>

fun show_nat :: "nat \<Rightarrow> string" where
  "show_nat n = (if n < 10 then [digit_chr n] else show_nat (n div 10) @ [digit_chr (n mod 10)])"

definition quote_chr :: char where
  "quote_chr = CHR 0x27"

definition newline_chr :: char where
  "newline_chr = CHR 0x0A"

fun str_exn :: "exn \<Rightarrow> string" where
  "str_exn (RuntimeError m) = m"
| "str_exn (ValueError m) = m"
| "str_exn (AttributeError m) = m"
| "str_exn (KeyError k) = [quote_chr] @ k @ [quote_chr]"
| "str_exn (HTTPError code reason url) =
     show_nat code @ (if code < 500 then '' Client Error: '' else '' Server Error: '')
       @ reason @ '' for url: '' @ url"
| "str_exn (ExternalError m) = m"

text \<open>
  \<^verbatim>\<open>strftime("%Y-%m-%d")\<close>: year on four digits, month and day on two, zero padded
  (a pandas Timestamp lies between the years 1677 and 2262).
\<close>

definition pad2 :: "nat \<Rightarrow> string" where
  "pad2 n = [digit_chr (n div 10 mod 10), digit_chr (n mod 10)]"

definition pad4 :: "nat \<Rightarrow> string" where
  "pad4 n = [digit_chr (n div 1000 mod 10), digit_chr (n div 100 mod 10),
             digit_chr (n div 10 mod 10), digit_chr (n mod 10)]"

definition strftime_ymd :: "date \<Rightarrow> string" where
  "strftime_ymd d = pad4 (d_year d) @ ''-'' @ pad2 (d_month d) @ ''-'' @ pad2 (d_day d)"

text \<open>
  The format \<^verbatim>\<open>:.2f\<close>: the value rounded to hundredths, ties to even, a minus sign for a
  negative value (also when it rounds to zero), at least one digit before the point and
  exactly two after it; NaN prints as \<^verbatim>\<open>nan\<close>.
\<close>

definition round_half_even :: "real \<Rightarrow> int" where
  "round_half_even r =
     (let f = \<lfloor>r\<rfloor>; d = r - of_int f
      in if d < 1 / 2 then f
         else if 1 / 2 < d then f + 1
         else if even f then f else f + 1)"

fun fmt2f :: "fval \<Rightarrow> string" where
  "fmt2f None = ''nan''"
| "fmt2f (Some x) =
     (let n = nat (round_half_even (\<bar>x\<bar> * 100))
      in (if x < 0 then ''-'' else []) @ show_nat (n div 100) @ ''.''
           @ [digit_chr (n div 10 mod 10), digit_chr (n mod 10)])"

section \<open>The message: \<^verbatim>\<open>create_message\<close>\<close>

text \<open>
  Python strings are modelled by their UTF-8 bytes; the characters outside ASCII are named.
\<close>

definition EMOJI_CALENDAR :: string where
  "EMOJI_CALENDAR = [CHR 0xF0, CHR 0x9F, CHR 0x93, CHR 0x85]"

definition EMOJI_RED :: string where
  "EMOJI_RED = [CHR 0xF0, CHR 0x9F, CHR 0x94, CHR 0xB4]"

definition EMOJI_GREEN :: string where
  "EMOJI_GREEN = [CHR 0xF0, CHR 0x9F, CHR 0x9F, CHR 0xA2]"

definition EMOJI_WARNING :: string where
  "EMOJI_WARNING = [CHR 0xE2, CHR 0x9A, CHR 0xA0, CHR 0xEF, CHR 0xB8, CHR 0x8F]"

definition GREEK_LAMBDA :: string where
  "GREEK_LAMBDA = [CHR 0xCE, CHR 0xBB]"

definition EM_DASH :: string where
  "EM_DASH = [CHR 0xE2, CHR 0x80, CHR 0x94]"

definition STATUS_ABOVE :: string where
  "STATUS_ABOVE = EMOJI_RED @ '' VIX ABOVE EWMA '' @ EM_DASH @ '' Risk conditions elevated.''"

definition STATUS_BELOW :: string where
  "STATUS_BELOW = EMOJI_GREEN @ '' VIX BELOW EWMA '' @ EM_DASH
     @ '' Favorable for short-vol trades (per Sinclair).''"

text \<open>
  The argument \<^verbatim>\<open>above\<close> (here \<open>above_flag\<close>) is the integer 0 or 1 that
  \<^verbatim>\<open>main\<close> passes; any non-zero integer counts as true.
\<close>

definition create_message :: "string \<Rightarrow> fval \<Rightarrow> fval \<Rightarrow> int \<Rightarrow> string" where
  "create_message date_str vix_val ewma_val above_flag =
     (let status = (if above_flag \<noteq> 0 then STATUS_ABOVE else STATUS_BELOW)
      in EMOJI_CALENDAR @ '' '' @ date_str @ [newline_chr]
           @ ''VIX: '' @ fmt2f vix_val @ [newline_chr]
           @ ''EWMA('' @ GREEK_LAMBDA @ ''=0.97): '' @ fmt2f ewma_val @ [newline_chr, newline_chr]
           @ status)"

section \<open>The outside world\<close>

text \<open>
  A pandas DataFrame as \<^verbatim>\<open>yf.download\<close> returns it: the date index and the named
  columns, a column giving the cell at each row position.
\<close>

record dataframe =
  df_index :: "date list"
  df_columns :: "(string \<times> (nat \<Rightarrow> fval)) list"

definition df_empty :: "dataframe \<Rightarrow> bool" where
  "df_empty df = (df_index df = [] \<or> df_columns df = [])"

definition df_len :: "dataframe \<Rightarrow> nat" where
  "df_len df = length (df_index df)"

definition df_has_column :: "dataframe \<Rightarrow> string \<Rightarrow> bool" where
  "df_has_column df name = (map_of (df_columns df) name \<noteq> None)"

definition df_getitem :: "dataframe \<Rightarrow> string \<Rightarrow> exn + series" where
  "df_getitem df name =
     (case map_of (df_columns df) name of
        None \<Rightarrow> Inl (KeyError name)
      | Some col \<Rightarrow> Inr (zip (df_index df) (map col [0..<length (df_index df)])))"

text \<open>An HTTP request as \<^verbatim>\<open>send_telegram\<close> posts it, and the response object.\<close>

record post_request =
  req_url :: string
  req_chat_id :: string
  req_text :: string
  req_timeout :: nat

record response =
  status_code :: nat
  reason :: string
  json_result :: "exn + string"

text \<open>
  The behaviour of the two services is a parameter: what the \<open>k\<close>-th call of
  \<^verbatim>\<open>yf.download\<close> and the \<open>k\<close>-th call of \<^verbatim>\<open>requests.post\<close> (counted from 0)
  answer, an exception or a result.
\<close>

record env =
  yf_download :: "nat \<Rightarrow> string \<Rightarrow> exn + dataframe"
  requests_post :: "nat \<Rightarrow> post_request \<Rightarrow> exn + response"

datatype level = INFO | WARNING | ERROR

text \<open>
  The effects of a run: the number of downloads made, the requests posted, the sleeps taken
  (in seconds) and the log lines written, each in order.
\<close>

record world =
  downloads :: nat
  posts :: "post_request list"
  sleeps :: "nat list"
  log_lines :: "(level \<times> string) list"

definition logging :: "level \<Rightarrow> string \<Rightarrow> world \<Rightarrow> world" where
  "logging lvl msg w = w\<lparr>log_lines := log_lines w @ [(lvl, msg)]\<rparr>"

definition time_sleep :: "nat \<Rightarrow> world \<Rightarrow> world" where
  "time_sleep secs w = w\<lparr>sleeps := sleeps w @ [secs]\<rparr>"

definition RETRIES :: nat where
  "RETRIES = 3"

definition RETRY_DELAY :: nat where
  "RETRY_DELAY = 5"

section \<open>The fetcher: \<^verbatim>\<open>fetch_vix\<close>\<close>

definition MSG_MISSING_CLOSE :: string where
  "MSG_MISSING_CLOSE = ''VIX data missing '' @ [quote_chr] @ ''Close'' @ [quote_chr] @ '' or empty''"

text \<open>The body of the \<^verbatim>\<open>try\<close>: one download, validated.\<close>

definition fetch_attempt :: "env \<Rightarrow> string \<Rightarrow> world \<Rightarrow> (exn + series) \<times> world" where
  "fetch_attempt e start_date w =
     (let w1 = logging INFO (''Downloading VIX data (start='' @ start_date @ '')...'') w;
          r = yf_download e (downloads w1) start_date;
          w2 = w1\<lparr>downloads := downloads w1 + 1\<rparr>
      in case r of
           Inl ex \<Rightarrow> (Inl ex, w2)
         | Inr df \<Rightarrow>
             if df_empty df \<or> \<not> df_has_column df ''Close''
             then (Inl (RuntimeError MSG_MISSING_CLOSE), w2)
             else (df_getitem df ''Close'',
                   logging INFO (''Downloaded '' @ show_nat (df_len df) @ '' rows'') w2))"

text \<open>
  The \<^verbatim>\<open>for attempt in range(1, RETRIES + 1)\<close> loop, by recursion over the attempt
  numbers still to run; the world is threaded through.  A loop that ran out without returning or raising would make the function return
  Python's \<^verbatim>\<open>None\<close>: the result \<open>Inr None\<close>.
\<close>

primrec fetch_loop ::
    "env \<Rightarrow> string \<Rightarrow> nat list \<Rightarrow> world \<Rightarrow> (exn + series option) \<times> world" where
  "fetch_loop e start_date [] = (\<lambda>w. (Inr None, w))"
| "fetch_loop e start_date (attempt # rest) = (\<lambda>w.
     case fetch_attempt e start_date w of
       (Inr s, w1) \<Rightarrow> (Inr (Some s), w1)
     | (Inl ex, w1) \<Rightarrow>
         (let w2 = logging WARNING
                (''Attempt '' @ show_nat attempt @ '': failed to download VIX: '' @ str_exn ex) w1
          in if attempt < RETRIES
             then fetch_loop e start_date rest (time_sleep (RETRY_DELAY * attempt) w2)
             else (Inl ex, w2)))"

definition fetch_vix :: "env \<Rightarrow> string \<Rightarrow> world \<Rightarrow> (exn + series option) \<times> world" where
  "fetch_vix e start_date w = fetch_loop e start_date [1..<RETRIES + 1] w"

section \<open>The notifier: \<^verbatim>\<open>send_telegram\<close>\<close>

text \<open>\<^verbatim>\<open>raise_for_status\<close> raises for the status codes 400 to 599.\<close>

definition raise_for_status :: "response \<Rightarrow> string \<Rightarrow> exn option" where
  "raise_for_status r url =
     (if 400 \<le> status_code r \<and> status_code r < 600
      then Some (HTTPError (status_code r) (reason r) url) else None)"

text \<open>The body of the \<^verbatim>\<open>try\<close>: one POST, its status checked, its JSON body parsed.\<close>

definition send_attempt :: "env \<Rightarrow> post_request \<Rightarrow> world \<Rightarrow> (exn + string) \<times> world" where
  "send_attempt e rq w =
     (let r = requests_post e (length (posts w)) rq;
          w1 = w\<lparr>posts := posts w @ [rq]\<rparr>
      in case r of
           Inl ex \<Rightarrow> (Inl ex, w1)
         | Inr resp \<Rightarrow>
             (case raise_for_status resp (req_url rq) of
                Some ex \<Rightarrow> (Inl ex, w1)
              | None \<Rightarrow>
                  (let w2 = logging INFO
                         (''Telegram message sent (status_code=''
                            @ show_nat (status_code resp) @ '')'') w1
                   in case json_result resp of
                        Inl ex \<Rightarrow> (Inl ex, w2)
                      | Inr js \<Rightarrow> (Inr js, w2))))"

primrec send_loop ::
    "env \<Rightarrow> post_request \<Rightarrow> nat list \<Rightarrow> world \<Rightarrow> (exn + string option) \<times> world" where
  "send_loop e rq [] = (\<lambda>w. (Inr None, w))"
| "send_loop e rq (attempt # rest) = (\<lambda>w.
     case send_attempt e rq w of
       (Inr js, w1) \<Rightarrow> (Inr (Some js), w1)
     | (Inl ex, w1) \<Rightarrow>
         (let w2 = logging WARNING
                (''Attempt '' @ show_nat attempt @ '': failed to send Telegram message: ''
                   @ str_exn ex) w1
          in if attempt < RETRIES
             then send_loop e rq rest (time_sleep (RETRY_DELAY * attempt) w2)
             else (Inl ex, w2)))"

definition telegram_request :: "string \<Rightarrow> string \<Rightarrow> string \<Rightarrow> post_request" where
  "telegram_request bot_token chat_id txt =
     \<lparr>req_url = ''https://api.telegram.org/bot'' @ bot_token @ ''/sendMessage'',
      req_chat_id = chat_id, req_text = txt, req_timeout = 15\<rparr>"

definition send_telegram ::
    "env \<Rightarrow> string \<Rightarrow> string \<Rightarrow> string \<Rightarrow> world \<Rightarrow> (exn + string option) \<times> world" where
  "send_telegram e bot_token chat_id txt w =
     send_loop e (telegram_request bot_token chat_id txt) [1..<RETRIES + 1] w"

section \<open>The orchestrator: \<^verbatim>\<open>main\<close>\<close>

text \<open>
  \<^verbatim>\<open>pd.concat([vix, vix_ewma], axis=1)\<close> joins the two series on their index.  Both carry
  the same index (\<^verbatim>\<open>compute_ewma\<close> keeps it), so the rows pair up by position.
\<close>

type_synonym frame = "(date \<times> fval \<times> fval) list"

definition pd_concat :: "series \<Rightarrow> series \<Rightarrow> frame" where
  "pd_concat a b = map (\<lambda>((d, v), (d', s)). (d, v, s)) (zip a b)"

definition dropna :: "frame \<Rightarrow> frame" where
  "dropna df = filter (\<lambda>(d, v, s). v \<noteq> None \<and> s \<noteq> None) df"

text \<open>Python's comparison of two floats: false as soon as one of them is NaN.\<close>

fun py_gt :: "fval \<Rightarrow> fval \<Rightarrow> bool" where
  "py_gt (Some x) (Some y) = (y < x)"
| "py_gt _ _ = False"

text \<open>
  Lines 80 to 91: smooth, join, drop the undefined rows, take the last row and classify it.
  The result is \<open>(date_str, vix_val, ewma_val, above)\<close>.
\<close>

definition MSG_EMPTY_FRAME :: string where
  "MSG_EMPTY_FRAME = ''Resulting DataFrame empty after dropping NA''"

definition latest_observation :: "series \<Rightarrow> exn + (string \<times> fval \<times> fval \<times> int)" where
  "latest_observation vix =
     (case compute_ewma vix DEFAULT_LAMBDA of
        Inl ex \<Rightarrow> Inl ex
      | Inr vix_ewma \<Rightarrow>
          (let df = dropna (pd_concat vix vix_ewma)
           in if df = [] then Inl (RuntimeError MSG_EMPTY_FRAME)
              else (let latest = last df;
                        date_str = strftime_ymd (fst latest);
                        vix_val = fst (snd latest);
                        ewma_val = snd (snd latest);
                        above_flag = (if py_gt vix_val ewma_val then 1 else 0)
                    in Inr (date_str, vix_val, ewma_val, above_flag))))"

text \<open>The process environment: \<^verbatim>\<open>os.getenv\<close> gives \<open>None\<close> for an unset variable.\<close>

record environ =
  TELEGRAM_BOT_TOKEN :: "string option"
  TELEGRAM_CHAT_ID :: "string option"
  START_DATE :: "string option"

definition DEFAULT_START :: "environ \<Rightarrow> string" where
  "DEFAULT_START ev = (case START_DATE ev of Some s \<Rightarrow> s | None \<Rightarrow> ''2010-01-01'')"

text \<open>Python's truth value of \<^verbatim>\<open>os.getenv(...)\<close>: false for \<open>None\<close> and for the empty string.\<close>

fun truthy :: "string option \<Rightarrow> bool" where
  "truthy None = False"
| "truthy (Some s) = (s \<noteq> [])"

definition MSG_NONE_EWM :: string where
  "MSG_NONE_EWM = [quote_chr] @ ''NoneType'' @ [quote_chr] @ '' object has no attribute ''
     @ [quote_chr] @ ''ewm'' @ [quote_chr]"

text \<open>The body of the \<^verbatim>\<open>try\<close> in \<^verbatim>\<open>main\<close> (lines 79 to 97).\<close>

definition success_path ::
    "env \<Rightarrow> string \<Rightarrow> string \<Rightarrow> string \<Rightarrow> world \<Rightarrow> (exn + unit) \<times> world" where
  "success_path e bot_token chat_id start_date w =
     (case fetch_vix e start_date w of
        (Inl ex, w1) \<Rightarrow> (Inl ex, w1)
      | (Inr None, w1) \<Rightarrow> (Inl (AttributeError MSG_NONE_EWM), w1)
      | (Inr (Some vix), w1) \<Rightarrow>
          (case latest_observation vix of
             Inl ex \<Rightarrow> (Inl ex, w1)
           | Inr (date_str, vix_val, ewma_val, above_flag) \<Rightarrow>
               (let message = create_message date_str vix_val ewma_val above_flag;
                    w2 = logging INFO (''Prepared message for '' @ date_str) w1
                in case send_telegram e bot_token chat_id message w2 of
                     (Inl ex, w3) \<Rightarrow> (Inl ex, w3)
                   | (Inr js, w3) \<Rightarrow> (Inr (), logging INFO ''Done'' w3))))"

definition failure_text :: "exn \<Rightarrow> string" where
  "failure_text ex = EMOJI_WARNING @ '' VIX alert failed: '' @ str_exn ex"

text \<open>
  \<^verbatim>\<open>main\<close>: the result is the exit code of the process (0 when \<^verbatim>\<open>main\<close> returns, the
  argument of \<^verbatim>\<open>sys.exit\<close> otherwise) and the world after the run.
\<close>

definition main :: "env \<Rightarrow> environ \<Rightarrow> world \<Rightarrow> nat \<times> world" where
  "main e ev w =
     (if \<not> truthy (TELEGRAM_BOT_TOKEN ev) \<or> \<not> truthy (TELEGRAM_CHAT_ID ev)
      then (2, logging ERROR
                 ''Missing TELEGRAM_BOT_TOKEN or TELEGRAM_CHAT_ID environment variables'' w)
      else (let bot_token = the (TELEGRAM_BOT_TOKEN ev); chat_id = the (TELEGRAM_CHAT_ID ev)
            in case success_path e bot_token chat_id (DEFAULT_START ev) w of
                 (Inr u, w1) \<Rightarrow> (0, w1)
               | (Inl ex, w1) \<Rightarrow>
                   (let w2 = logging ERROR ''Unhandled error in vix_alert'' w1
                    in case send_telegram e bot_token chat_id (failure_text ex) w2 of
                         (Inr js, w3) \<Rightarrow> (1, w3)
                       | (Inl ex2, w3) \<Rightarrow>
                           (1, logging ERROR
                                 ''Also failed to send failure message to Telegram'' w3))))"

section \<open>Definitions used to state the properties\<close>

text \<open>
  The recurrence as the specification words it: each output is \<open>alpha\<close> times the input plus
  \<open>1 - alpha\<close> times the previous output, \<open>prev\<close> being the output before the first input
  of the list.
\<close>

fun ewma_recurrence :: "real \<Rightarrow> real \<Rightarrow> real list \<Rightarrow> real list" where
  "ewma_recurrence alpha prev [] = []"
| "ewma_recurrence alpha prev (x # xs) =
     (let y = alpha * x + (1 - alpha) * prev in y # ewma_recurrence alpha y xs)"

text \<open>A series every value of which is defined.\<close>

definition defined_series :: "(date \<times> real) list \<Rightarrow> series" where
  "defined_series S = map (\<lambda>(d, x). (d, Some x)) S"

text \<open>
  What the attempt that makes the \<open>k\<close>-th download, respectively the \<open>k\<close>-th POST, ends
  with: the value it returns or the exception it raises.
\<close>

definition fetch_outcome :: "env \<Rightarrow> string \<Rightarrow> nat \<Rightarrow> exn + series" where
  "fetch_outcome e start_date k =
     (case yf_download e k start_date of
        Inl ex \<Rightarrow> Inl ex
      | Inr df \<Rightarrow>
          if df_empty df \<or> \<not> df_has_column df ''Close''
          then Inl (RuntimeError MSG_MISSING_CLOSE)
          else df_getitem df ''Close'')"

definition send_outcome :: "env \<Rightarrow> post_request \<Rightarrow> nat \<Rightarrow> exn + string" where
  "send_outcome e rq k =
     (case requests_post e k rq of
        Inl ex \<Rightarrow> Inl ex
      | Inr resp \<Rightarrow>
          (case raise_for_status resp (req_url rq) of
             Some ex \<Rightarrow> Inl ex
           | None \<Rightarrow> json_result resp))"

definition DIGITS :: "char set" where
  "DIGITS = set ''0123456789''"


section \<open>Example worlds\<close>

text \<open>Concrete frames, responses and services, on which the theorems below are run.\<close>

definition world0 :: world where
  "world0 = \<lparr>downloads = 0, posts = [], sleeps = [], log_lines = []\<rparr>"

definition day :: "nat \<Rightarrow> date" where
  "day n = \<lparr>d_year = 2024, d_month = 1, d_day = n\<rparr>"

definition frame_A :: dataframe where
  "frame_A = \<lparr>df_index = [day 2, day 3, day 4],
              df_columns = [(''Close'',
                \<lambda>i. if i = 0 then Some 20 else if i = 1 then Some 22
                    else if i = 2 then Some 18 else None)]\<rparr>"

definition series_A :: series where
  "series_A = [(day 2, Some 20), (day 3, Some 22), (day 4, Some 18)]"

definition frame_empty :: dataframe where
  "frame_empty = \<lparr>df_index = [], df_columns = [(''Close'', \<lambda>i. None)]\<rparr>"

definition frame_nan :: dataframe where
  "frame_nan = \<lparr>df_index = [day 2, day 3], df_columns = [(''Close'', \<lambda>i. None)]\<rparr>"

definition response_ok :: response where
  "response_ok = \<lparr>status_code = 200, reason = ''OK'', json_result = Inr ''{}''\<rparr>"

definition response_500 :: response where
  "response_500 = \<lparr>status_code = 500, reason = ''Internal Server Error'',
                    json_result = Inr ''{}''\<rparr>"

text \<open>
  \<open>services d p\<close> answers the \<open>k\<close>-th download with \<open>d k\<close> and the \<open>k\<close>-th POST with
  \<open>p k\<close>, whatever is asked.
\<close>

definition services :: "(nat \<Rightarrow> exn + dataframe) \<Rightarrow> (nat \<Rightarrow> exn + response) \<Rightarrow> env" where
  "services d p = \<lparr>yf_download = (\<lambda>k start_date. d k), requests_post = (\<lambda>k rq. p k)\<rparr>"

definition credentials :: environ where
  "credentials = \<lparr>TELEGRAM_BOT_TOKEN = Some ''T'', TELEGRAM_CHAT_ID = Some ''C'',
                   START_DATE = None\<rparr>"

section \<open>Properties of the smoothing\<close>

lemma ewm_update_defined:
  assumes "0 < alpha" "alpha \<le> 1"
  shows "ewm_update alpha \<lparr>weighted = Some w, old_wt = 1, nobs = Suc n\<rparr> (Some c) =
           \<lparr>weighted = Some (alpha * c + (1 - alpha) * w), old_wt = 1, nobs = Suc (Suc n)\<rparr>"
proof -
  have "(1 - alpha) * w + alpha * c = alpha * c + (1 - alpha) * w" by simp
  moreover have "w = c \<Longrightarrow> w = alpha * c + (1 - alpha) * w" by (simp add: algebra_simps)
  ultimately show ?thesis
    by (auto simp add: ewm_update_def Let_def)
qed

lemma ewm_loop_defined:
  assumes "0 < alpha" "alpha \<le> 1"
  shows "ewm_loop alpha \<lparr>weighted = Some w, old_wt = 1, nobs = Suc n\<rparr> (map Some xs) =
           map Some (ewma_recurrence alpha w xs)"
proof (induction xs arbitrary: w n)
  case Nil
  show ?case by simp
next
  case (Cons x xs)
  show ?case
    by (simp add: ewm_update_defined [OF assms] Cons.IH ewm_out_def Let_def)
qed

lemma alpha_of_com:
  assumes "0 < (alpha::real)"
  shows "1 / (1 + (1 - alpha) / alpha) = alpha"
  using assms by (simp add: field_simps)

lemma ewm_mean_defined:
  assumes "0 < alpha" "alpha \<le> 1"
  shows "ewm_mean ((1 - alpha) / alpha) (map Some (x # xs)) =
           map Some (x # ewma_recurrence alpha x xs)"
proof -
  have "ewm_loop alpha \<lparr>weighted = Some x, old_wt = 1, nobs = Suc 0\<rparr> (map Some xs) =
          map Some (ewma_recurrence alpha x xs)"
    by (rule ewm_loop_defined [OF assms])
  then show ?thesis
    using assms by (simp add: ewm_mean_def ewm_first_def ewm_out_def alpha_of_com)
qed

lemma ewma_recurrence_length [simp]: "length (ewma_recurrence a p xs) = length xs"
  by (induction xs arbitrary: p) (simp_all add: Let_def)


text \<open>The smoothed values of a series without gaps, as a list of numbers.\<close>

lemma defined_series_fst [simp]: "map fst (defined_series S) = map fst S"
  by (simp add: defined_series_def case_prod_beta)

lemma defined_series_snd [simp]: "map snd (defined_series S) = map Some (map snd S)"
  by (simp add: defined_series_def case_prod_beta)

lemma compute_ewma_defined:
  assumes "0 < lam" "lam < 1"
  shows "compute_ewma (defined_series ((d, x) # S)) lam =
           Inr (zip (d # map fst S) (map Some (x # ewma_recurrence (1 - lam) x (map snd S))))"
proof -
  have a: "0 < 1 - lam" "1 - lam \<le> 1" using assms by simp_all
  have "ewm_mean ((1 - (1 - lam)) / (1 - lam)) (map Some (x # map snd S)) =
          map Some (x # ewma_recurrence (1 - lam) x (map snd S))"
    by (rule ewm_mean_defined [OF a])
  then show ?thesis
    using assms by (simp add: compute_ewma_def Let_def)
qed

lemma compute_ewma_Nil: "0 < lam \<Longrightarrow> lam < 1 \<Longrightarrow> compute_ewma [] lam = Inr []"
  by (simp add: compute_ewma_def ewm_mean_def)





section \<open>Properties of the latest observation\<close>

lemma compute_ewma_defined_shape:
  assumes "0 < lam" "lam < 1"
  shows "\<exists>ys. compute_ewma (defined_series S) lam = Inr (zip (map fst S) (map Some ys))
           \<and> length ys = length S"
proof (cases S)
  case Nil
  then show ?thesis
    using assms by (simp add: compute_ewma_Nil defined_series_def)
next
  case (Cons p S')
  obtain d x where "p = (d, x)" by (cases p)
  with Cons compute_ewma_defined [OF assms, of d x S'] show ?thesis
    by (intro exI [of _ "x # ewma_recurrence (1 - lam) x (map snd S')"]) simp
qed

lemma pd_concat_defined:
  "length ys = length S \<Longrightarrow>
     pd_concat (defined_series S) (zip (map fst S) (map Some ys)) =
       map (\<lambda>((d, x), y). (d, Some x, Some y)) (zip S ys)"
proof (induction S arbitrary: ys)
  case Nil
  then show ?case by (simp add: pd_concat_def defined_series_def)
next
  case (Cons p S)
  then obtain y ys' where ys: "ys = y # ys'" by (cases ys) auto
  with Cons.prems have "length ys' = length S" by simp
  from Cons.IH [OF this] ys show ?case
    by (simp add: pd_concat_def defined_series_def case_prod_beta)
qed

lemma dropna_defined:
  "dropna (map (\<lambda>((d, x), y). (d, Some x, Some y)) zs) =
     map (\<lambda>((d, x), y). (d, Some x, Some y)) zs"
  by (induction zs) (simp_all add: dropna_def case_prod_beta)

lemma dropna_member:
  "(d, v, s) \<in> set (dropna df) \<longleftrightarrow> (d, v, s) \<in> set df \<and> v \<noteq> None \<and> s \<noteq> None"
  by (auto simp add: dropna_def)

lemma latest_observation_Inr:
  assumes "latest_observation vix = Inr (date_str, vix_val, ewma_val, above_flag)"
  shows "\<exists>vix_ewma d. compute_ewma vix DEFAULT_LAMBDA = Inr vix_ewma
           \<and> dropna (pd_concat vix vix_ewma) \<noteq> []
           \<and> last (dropna (pd_concat vix vix_ewma)) = (d, vix_val, ewma_val)
           \<and> date_str = strftime_ymd d
           \<and> above_flag = (if py_gt vix_val ewma_val then 1 else 0)"
proof (cases "compute_ewma vix DEFAULT_LAMBDA")
  case (Inl ex)
  with assms show ?thesis by (simp add: latest_observation_def)
next
  case (Inr vix_ewma)
  let ?df = "dropna (pd_concat vix vix_ewma)"
  from assms Inr have ne: "?df \<noteq> []"
    by (auto simp add: latest_observation_def Let_def split: if_splits)
  with assms Inr have
    "date_str = strftime_ymd (fst (last ?df))" "vix_val = fst (snd (last ?df))"
    "ewma_val = snd (snd (last ?df))"
    "above_flag = (if py_gt vix_val ewma_val then 1 else 0)"
    by (auto simp add: latest_observation_def Let_def split: if_splits)
  moreover have "last ?df = (fst (last ?df), fst (snd (last ?df)), snd (snd (last ?df)))"
    by simp
  ultimately show ?thesis using Inr ne by metis
qed

text \<open>
  Claim C3.  The observation that \<^verbatim>\<open>main\<close> classifies has a defined raw and a defined
  smoothed value, and its flag is 1 exactly when the raw value is strictly greater than the
  smoothed one: equal values give 0.
\<close>

theorem classification_strict:
  assumes "latest_observation vix = Inr (date_str, vix_val, ewma_val, above_flag)"
  shows "\<exists>x y. vix_val = Some x \<and> ewma_val = Some y
           \<and> above_flag = (if x > y then 1 else 0)
           \<and> (x = y \<longrightarrow> above_flag = 0) \<and> (x > y \<longrightarrow> above_flag = 1)"
proof -
  from latest_observation_Inr [OF assms] obtain vix_ewma d where
    ne: "dropna (pd_concat vix vix_ewma) \<noteq> []" and
    l: "last (dropna (pd_concat vix vix_ewma)) = (d, vix_val, ewma_val)" and
    a: "above_flag = (if py_gt vix_val ewma_val then 1 else 0)"
    by blast
  from ne l have "(d, vix_val, ewma_val) \<in> set (dropna (pd_concat vix vix_ewma))"
    by (metis last_in_set)
  then have "vix_val \<noteq> None" "ewma_val \<noteq> None"
    by (simp_all add: dropna_member)
  then obtain x y where "vix_val = Some x" "ewma_val = Some y" by auto
  with a show ?thesis by simp
qed

text \<open>
  The theorem on a one day series, where the smoothed value equals the raw value and the
  flag is 0, and on a two day series whose last value 20 lies above its smoothed value 10.3.
\<close>

theorem classification_strict_witness:
  "latest_observation [(\<lparr>d_year = 2024, d_month = 1, d_day = 2\<rparr>, Some 20)]
     = Inr (''2024-01-02'', Some 20, Some 20, 0)
   \<and> \<not> (20::real) > 20
   \<and> latest_observation [(\<lparr>d_year = 2024, d_month = 1, d_day = 2\<rparr>, Some 10),
                          (\<lparr>d_year = 2024, d_month = 1, d_day = 3\<rparr>, Some 20)]
     = Inr (''2024-01-03'', Some 20, Some (103 / 10), 1)
   \<and> (20::real) > 103 / 10"
proof -
  have 1: "latest_observation [(\<lparr>d_year = 2024, d_month = 1, d_day = 2\<rparr>, Some 20)]
     = Inr (''2024-01-02'', Some 20, Some 20, 0)"
    by (simp add: latest_observation_def compute_ewma_def DEFAULT_LAMBDA_def ewm_mean_def
        ewm_first_def ewm_out_def pd_concat_def dropna_def strftime_ymd_def pad4_def pad2_def
        digit_chr_def Let_def)
  have 2: "latest_observation [(\<lparr>d_year = 2024, d_month = 1, d_day = 2\<rparr>, Some 10),
                          (\<lparr>d_year = 2024, d_month = 1, d_day = 3\<rparr>, Some 20)]
     = Inr (''2024-01-03'', Some 20, Some (103 / 10), 1)"
    by (simp add: latest_observation_def compute_ewma_def DEFAULT_LAMBDA_def ewm_mean_def
        ewm_first_def ewm_out_def ewm_update_def pd_concat_def dropna_def strftime_ymd_def
        pad4_def pad2_def digit_chr_def Let_def del: not_None_eq)
  from classification_strict [OF 1] obtain x y :: real where
    "Some 20 = Some x" "Some 20 = Some y" "(0::int) = (if x > y then 1 else 0)"
    by blast
  then have 3: "\<not> (20::real) > 20" by simp
  from classification_strict [OF 2] obtain x y :: real where
    "Some 20 = Some x" "Some (103 / 10) = Some y" "(1::int) = (if x > y then 1 else 0)"
    by blast
  then have 4: "(20::real) > 103 / 10" by (simp split: if_splits)
  from 1 2 3 4 show ?thesis by blast
qed

text \<open>
  Claim C10.  For a non-empty series whose values are all defined the smoothed series is
  defined at every index, dropping the undefined rows of the join removes nothing, and the
  observation is the last row: the date and the raw value of the last element of the input.
\<close>

theorem defined_series_latest:
  assumes "S \<noteq> []"
  shows "\<exists>vix_ewma y.
           compute_ewma (defined_series S) DEFAULT_LAMBDA = Inr vix_ewma
         \<and> length vix_ewma = length S
         \<and> (\<forall>r \<in> set vix_ewma. snd r \<noteq> None)
         \<and> dropna (pd_concat (defined_series S) vix_ewma) = pd_concat (defined_series S) vix_ewma
         \<and> length (pd_concat (defined_series S) vix_ewma) = length S
         \<and> latest_observation (defined_series S) =
             Inr (strftime_ymd (fst (last S)), Some (snd (last S)), Some y,
                  if y < snd (last S) then 1 else 0)"
proof -
  have "0 < DEFAULT_LAMBDA" "DEFAULT_LAMBDA < 1" by (simp_all add: DEFAULT_LAMBDA_def)
  from compute_ewma_defined_shape [OF this, of S] obtain ys where
    c: "compute_ewma (defined_series S) DEFAULT_LAMBDA = Inr (zip (map fst S) (map Some ys))"
    and n: "length ys = length S"
    by blast
  let ?e = "zip (map fst S) (map Some ys)"
  let ?f = "\<lambda>((d, x), y). (d, Some x, Some (y::real))"
  have j: "pd_concat (defined_series S) ?e = map ?f (zip S ys)"
    by (rule pd_concat_defined [OF n])
  have dn: "dropna (pd_concat (defined_series S) ?e) = pd_concat (defined_series S) ?e"
    by (simp add: j dropna_defined)
  have len: "length (pd_concat (defined_series S) ?e) = length S"
    using n by (simp add: j)
  have def: "\<forall>r \<in> set ?e. snd r \<noteq> None"
    by (auto dest!: set_zip_rightD)
  from assms n have ysne: "ys \<noteq> []" by auto
  with assms n have lz: "last (zip S ys) = (last S, last ys)"
    by (simp add: last_zip)
  from assms ysne n have zne: "zip S ys \<noteq> []" by (cases S; cases ys) auto
  have lst: "last (map ?f (zip S ys)) = (fst (last S), Some (snd (last S)), Some (last ys))"
    using zne lz by (simp add: last_map case_prod_beta)
  have ne: "map ?f (zip S ys) \<noteq> []" using zne by simp
  have dd: "dropna (pd_concat (defined_series S) ?e) = map ?f (zip S ys)"
    unfolding j by (rule dropna_defined)
  have "latest_observation (defined_series S) =
             Inr (strftime_ymd (fst (last S)), Some (snd (last S)), Some (last ys),
                  if last ys < snd (last S) then 1 else 0)"
    using ne lst by (simp add: latest_observation_def c dd Let_def)
  with c n dn len def show ?thesis
    by (intro exI [of _ ?e] exI [of _ "last ys"]) simp
qed

text \<open>The theorem at the three day series 20, 22, 18: the observation is the third day.\<close>

theorem defined_series_latest_witness:
  "[(\<lparr>d_year = 2024, d_month = 1, d_day = 2\<rparr>, 20::real),
    (\<lparr>d_year = 2024, d_month = 1, d_day = 3\<rparr>, 22),
    (\<lparr>d_year = 2024, d_month = 1, d_day = 4\<rparr>, 18)] \<noteq> []
   \<and> (\<exists>y. latest_observation (defined_series
              [(\<lparr>d_year = 2024, d_month = 1, d_day = 2\<rparr>, 20),
               (\<lparr>d_year = 2024, d_month = 1, d_day = 3\<rparr>, 22),
               (\<lparr>d_year = 2024, d_month = 1, d_day = 4\<rparr>, 18)])
            = Inr (''2024-01-04'', Some 18, Some y, if y < 18 then 1 else 0))"
proof -
  let ?S = "[(\<lparr>d_year = 2024, d_month = 1, d_day = 2\<rparr>, 20::real),
    (\<lparr>d_year = 2024, d_month = 1, d_day = 3\<rparr>, 22),
    (\<lparr>d_year = 2024, d_month = 1, d_day = 4\<rparr>, 18)]"
  have h: "?S \<noteq> []" by simp
  have s: "strftime_ymd \<lparr>d_year = 2024, d_month = 1, d_day = 4\<rparr> = ''2024-01-04''"
    by (simp add: strftime_ymd_def pad4_def pad2_def digit_chr_def)
  from defined_series_latest [OF h] s show ?thesis
    by auto
qed


section \<open>Properties of the message\<close>

declare show_nat.simps [simp del]

lemma digit_chr_DIGITS: "d < 10 \<Longrightarrow> digit_chr d \<in> DIGITS"
  unfolding digit_chr_def DIGITS_def by (rule nth_mem) simp

lemma digit_chr_mod [simp]: "digit_chr (n mod 10) \<in> DIGITS"
  by (rule digit_chr_DIGITS) simp

lemma show_nat_DIGITS: "set (show_nat n) \<subseteq> DIGITS"
proof (induction n rule: show_nat.induct)
  case (1 n)
  show ?case
  proof (cases "n < 10")
    case True
    then show ?thesis
      by (subst show_nat.simps) (simp add: digit_chr_DIGITS)
  next
    case False
    with 1 show ?thesis
      by (subst show_nat.simps) simp
  qed
qed

lemma pad2_DIGITS: "set (pad2 n) \<subseteq> DIGITS"
  by (simp add: pad2_def)

lemma pad4_DIGITS: "set (pad4 n) \<subseteq> DIGITS"
  by (simp add: pad4_def)

lemma strftime_ymd_chars: "set (strftime_ymd d) \<subseteq> DIGITS \<union> {CHR ''-''}"
  using pad2_DIGITS pad4_DIGITS by (auto simp add: strftime_ymd_def)

lemma fmt2f_chars: "set (fmt2f (Some x)) \<subseteq> DIGITS \<union> {CHR ''-'', CHR ''.''}"
  using show_nat_DIGITS by (auto simp add: Let_def)

lemma strftime_ymd_shape:
  "\<exists>y1 y2 y3 y4 m1 m2 d1 d2.
      strftime_ymd d = [y1, y2, y3, y4, CHR ''-'', m1, m2, CHR ''-'', d1, d2]
    \<and> {y1, y2, y3, y4, m1, m2, d1, d2} \<subseteq> DIGITS"
  by (simp add: strftime_ymd_def pad4_def pad2_def)

lemma dot_notin_DIGITS: "CHR ''.'' \<notin> DIGITS"
  by (simp add: DIGITS_def)

lemma fmt2f_shape:
  "\<exists>ip f1 f2. fmt2f (Some x) = ip @ ''.'' @ [f1, f2] \<and> ip \<noteq> []
     \<and> CHR ''.'' \<notin> set ip \<and> {f1, f2} \<subseteq> DIGITS"
proof -
  define n where "n = nat (round_half_even (\<bar>x\<bar> * 100))"
  let ?ip = "(if x < 0 then ''-'' else []) @ show_nat (n div 100)"
  have 1: "fmt2f (Some x) = ?ip @ ''.'' @ [digit_chr (n div 10 mod 10), digit_chr (n mod 10)]"
    by (simp add: n_def Let_def)
  have "show_nat (n div 100) \<noteq> []"
    by (subst show_nat.simps) simp
  then have 2: "?ip \<noteq> []" by simp
  have 3: "CHR ''.'' \<notin> set ?ip"
    using show_nat_DIGITS [of "n div 100"] dot_notin_DIGITS by auto
  have 4: "{digit_chr (n div 10 mod 10), digit_chr (n mod 10)} \<subseteq> DIGITS" by simp
  from 1 2 3 4 show ?thesis by blast
qed

lemma red_notin_DIGITS: "CHR 0xB4 \<notin> DIGITS \<union> {CHR ''-'', CHR ''.''}"
  by (simp add: DIGITS_def)

lemma green_notin_DIGITS: "CHR 0xA2 \<notin> DIGITS \<union> {CHR ''-'', CHR ''.''}"
  by (simp add: DIGITS_def)

lemma red_in_above: "CHR 0xB4 \<in> set STATUS_ABOVE"
  by (simp add: STATUS_ABOVE_def EMOJI_RED_def)

lemma green_in_below: "CHR 0xA2 \<in> set STATUS_BELOW"
  by (simp add: STATUS_BELOW_def EMOJI_GREEN_def)

lemma red_notin_below_message:
  "CHR 0xB4 \<notin> set (create_message (strftime_ymd d) (Some v) (Some s) 0)"
proof -
  have "CHR 0xB4 \<notin> set (strftime_ymd d)"
    using strftime_ymd_chars [of d] red_notin_DIGITS by auto
  moreover have "CHR 0xB4 \<notin> set (fmt2f (Some v))" "CHR 0xB4 \<notin> set (fmt2f (Some s))"
    using fmt2f_chars [of v] fmt2f_chars [of s] red_notin_DIGITS by auto
  ultimately show ?thesis
    by (simp add: create_message_def STATUS_BELOW_def EMOJI_CALENDAR_def EMOJI_GREEN_def
        GREEK_LAMBDA_def EM_DASH_def newline_chr_def del: fmt2f.simps)
qed

lemma green_notin_above_message:
  assumes "a \<noteq> 0"
  shows "CHR 0xA2 \<notin> set (create_message (strftime_ymd d) (Some v) (Some s) a)"
proof -
  have "CHR 0xA2 \<notin> set (strftime_ymd d)"
    using strftime_ymd_chars [of d] green_notin_DIGITS by auto
  moreover have "CHR 0xA2 \<notin> set (fmt2f (Some v))" "CHR 0xA2 \<notin> set (fmt2f (Some s))"
    using fmt2f_chars [of v] fmt2f_chars [of s] green_notin_DIGITS by auto
  ultimately show ?thesis
    using assms
    by (simp add: create_message_def STATUS_ABOVE_def EMOJI_CALENDAR_def EMOJI_RED_def
        GREEK_LAMBDA_def EM_DASH_def newline_chr_def del: fmt2f.simps)
qed

lemma create_message_parts:
  "create_message date_str v s a =
     (EMOJI_CALENDAR @ '' '') @ date_str @ ([newline_chr] @ ''VIX: '' @ fmt2f v @ [newline_chr]
       @ ''EWMA('' @ GREEK_LAMBDA @ ''=0.97): '' @ fmt2f s @ [newline_chr, newline_chr]
       @ (if a \<noteq> 0 then STATUS_ABOVE else STATUS_BELOW))"
  by (simp add: create_message_def)

lemma sublist_date: "sublist date_str (create_message date_str v s a)"
  unfolding create_message_parts by (rule sublist_appendI)

lemma sublist_vix: "sublist (fmt2f v) (create_message date_str v s a)"
proof -
  have "create_message date_str v s a =
      (EMOJI_CALENDAR @ '' '' @ date_str @ [newline_chr] @ ''VIX: '') @ fmt2f v @ ([newline_chr]
       @ ''EWMA('' @ GREEK_LAMBDA @ ''=0.97): '' @ fmt2f s @ [newline_chr, newline_chr]
       @ (if a \<noteq> 0 then STATUS_ABOVE else STATUS_BELOW))"
    by (simp add: create_message_def)
  then show ?thesis by (metis sublist_appendI)
qed

lemma sublist_ewma: "sublist (fmt2f s) (create_message date_str v s a)"
proof -
  have "create_message date_str v s a =
      (EMOJI_CALENDAR @ '' '' @ date_str @ [newline_chr] @ ''VIX: '' @ fmt2f v @ [newline_chr]
       @ ''EWMA('' @ GREEK_LAMBDA @ ''=0.97): '') @ fmt2f s @ ([newline_chr, newline_chr]
       @ (if a \<noteq> 0 then STATUS_ABOVE else STATUS_BELOW))"
    by (simp add: create_message_def)
  then show ?thesis by (metis sublist_appendI)
qed

lemma sublist_lambda: "sublist (GREEK_LAMBDA @ ''=0.97'') (create_message date_str v s a)"
proof -
  have "create_message date_str v s a =
      (EMOJI_CALENDAR @ '' '' @ date_str @ [newline_chr] @ ''VIX: '' @ fmt2f v @ [newline_chr]
       @ ''EWMA('') @ (GREEK_LAMBDA @ ''=0.97'') @ (''): '' @ fmt2f s @ [newline_chr, newline_chr]
       @ (if a \<noteq> 0 then STATUS_ABOVE else STATUS_BELOW))"
    by (simp add: create_message_def)
  then show ?thesis by (metis sublist_appendI)
qed

lemma sublist_status:
  "sublist (if a \<noteq> 0 then STATUS_ABOVE else STATUS_BELOW) (create_message date_str v s a)"
proof -
  have "create_message date_str v s a =
      (EMOJI_CALENDAR @ '' '' @ date_str @ [newline_chr] @ ''VIX: '' @ fmt2f v @ [newline_chr]
       @ ''EWMA('' @ GREEK_LAMBDA @ ''=0.97): '' @ fmt2f s @ [newline_chr, newline_chr])
       @ (if a \<noteq> 0 then STATUS_ABOVE else STATUS_BELOW)"
    by (simp add: create_message_def)
  then show ?thesis by (metis sublist_append_leftI)
qed

lemma not_sublist_other_status:
  "\<not> sublist (if a \<noteq> 0 then STATUS_BELOW else STATUS_ABOVE)
       (create_message (strftime_ymd d) (Some v) (Some s) a)"
proof (cases "a = 0")
  case True
  show ?thesis
  proof
    assume "sublist (if a \<noteq> 0 then STATUS_BELOW else STATUS_ABOVE)
       (create_message (strftime_ymd d) (Some v) (Some s) a)"
    with True have "set STATUS_ABOVE \<subseteq> set (create_message (strftime_ymd d) (Some v) (Some s) 0)"
      by (auto dest: set_mono_sublist)
    with red_in_above red_notin_below_message show False by blast
  qed
next
  case False
  show ?thesis
  proof
    assume "sublist (if a \<noteq> 0 then STATUS_BELOW else STATUS_ABOVE)
       (create_message (strftime_ymd d) (Some v) (Some s) a)"
    with False have "set STATUS_BELOW \<subseteq> set (create_message (strftime_ymd d) (Some v) (Some s) a)"
      by (auto dest: set_mono_sublist)
    with green_in_below green_notin_above_message [OF False] show False by blast
  qed
qed

lemma round_half_even_near: "\<bar>of_int (round_half_even r) - r\<bar> \<le> 1 / 2"
proof -
  have "of_int \<lfloor>r\<rfloor> \<le> r" "r < of_int \<lfloor>r\<rfloor> + 1" by linarith+
  then show ?thesis
    by (auto simp add: round_half_even_def Let_def)
qed

text \<open>
  Claim C7.  The message built for an observation of date \<open>d\<close>, raw value \<open>v\<close>, smoothed
  value \<open>s\<close> and flag \<open>a\<close> contains the date as four digits, a dash, two digits, a dash
  and two digits; the raw and the smoothed value, each printed with exactly two digits after
  the point; the text \<open>=0.97\<close> after the Greek lambda, 0.97 being the decay that \<^verbatim>\<open>main\<close>
  smooths with; and the status phrase that the flag selects, while the other status phrase
  does not occur in it.
\<close>

theorem message_fields:
  "(let msg = create_message (strftime_ymd d) (Some v) (Some s) a
    in sublist (strftime_ymd d) msg
     \<and> (\<exists>y1 y2 y3 y4 m1 m2 d1 d2.
           strftime_ymd d = [y1, y2, y3, y4, CHR ''-'', m1, m2, CHR ''-'', d1, d2]
         \<and> {y1, y2, y3, y4, m1, m2, d1, d2} \<subseteq> DIGITS)
     \<and> sublist (fmt2f (Some v)) msg
     \<and> (\<exists>ip f1 f2. fmt2f (Some v) = ip @ ''.'' @ [f1, f2] \<and> ip \<noteq> []
           \<and> CHR ''.'' \<notin> set ip \<and> {f1, f2} \<subseteq> DIGITS)
     \<and> sublist (fmt2f (Some s)) msg
     \<and> (\<exists>ip f1 f2. fmt2f (Some s) = ip @ ''.'' @ [f1, f2] \<and> ip \<noteq> []
           \<and> CHR ''.'' \<notin> set ip \<and> {f1, f2} \<subseteq> DIGITS)
     \<and> sublist (GREEK_LAMBDA @ ''=0.97'') msg
     \<and> DEFAULT_LAMBDA = 97 / 100
     \<and> sublist (if a \<noteq> 0 then STATUS_ABOVE else STATUS_BELOW) msg
     \<and> \<not> sublist (if a \<noteq> 0 then STATUS_BELOW else STATUS_ABOVE) msg
     \<and> STATUS_ABOVE \<noteq> STATUS_BELOW)"
proof -
  have "STATUS_ABOVE \<noteq> STATUS_BELOW"
    by (simp add: STATUS_ABOVE_def STATUS_BELOW_def EMOJI_RED_def EMOJI_GREEN_def)
  then show ?thesis
    unfolding Let_def
    using sublist_date sublist_vix sublist_ewma sublist_lambda sublist_status
      not_sublist_other_status strftime_ymd_shape [of d] fmt2f_shape [of v] fmt2f_shape [of s]
    by (simp add: DEFAULT_LAMBDA_def del: fmt2f.simps)
qed




section \<open>Properties of the retry loops\<close>

lemma logging_proj [simp]:
  "downloads (logging l m w) = downloads w"
  "posts (logging l m w) = posts w"
  "sleeps (logging l m w) = sleeps w"
  "log_lines (logging l m w) = log_lines w @ [(l, m)]"
  by (simp_all add: logging_def)

lemma time_sleep_proj [simp]:
  "downloads (time_sleep n w) = downloads w"
  "posts (time_sleep n w) = posts w"
  "sleeps (time_sleep n w) = sleeps w @ [n]"
  "log_lines (time_sleep n w) = log_lines w"
  by (simp_all add: time_sleep_def)

lemma attempts_list: "[1..<RETRIES + 1] = [1, 2, 3]"
  by (simp add: RETRIES_def upt_rec)

subsection \<open>One attempt\<close>

lemma fetch_attempt_fst: "fst (fetch_attempt e sd w) = fetch_outcome e sd (downloads w)"
  by (simp add: fetch_attempt_def fetch_outcome_def Let_def split: sum.splits)

lemma fetch_attempt_snd [simp]:
  "downloads (snd (fetch_attempt e sd w)) = downloads w + 1"
  "posts (snd (fetch_attempt e sd w)) = posts w"
  "sleeps (snd (fetch_attempt e sd w)) = sleeps w"
  by (simp_all add: fetch_attempt_def Let_def split: sum.splits)

lemma send_attempt_fst: "fst (send_attempt e rq w) = send_outcome e rq (length (posts w))"
  by (simp add: send_attempt_def send_outcome_def Let_def split: sum.splits option.splits)

lemma send_attempt_snd [simp]:
  "downloads (snd (send_attempt e rq w)) = downloads w"
  "posts (snd (send_attempt e rq w)) = posts w @ [rq]"
  "sleeps (snd (send_attempt e rq w)) = sleeps w"
  by (simp_all add: send_attempt_def Let_def split: sum.splits option.splits)

subsection \<open>One turn of the loop\<close>

text \<open>
  A turn whose attempt succeeds returns its result.  A turn whose attempt fails logs a
  warning; it then sleeps and goes on with the remaining attempts when its number is below
  \<open>RETRIES\<close>, and raises the exception again otherwise.
\<close>

lemma fetch_loop_success:
  assumes "fetch_outcome e sd (downloads w) = Inr s"
  shows "fetch_loop e sd (a # rest) w = (Inr (Some s), snd (fetch_attempt e sd w))"
  using assms by (simp add: split_def fetch_attempt_fst)

lemma fetch_loop_failure:
  assumes "fetch_outcome e sd (downloads w) = Inl ex"
  shows "\<exists>w1. downloads w1 = downloads w + 1 \<and> posts w1 = posts w \<and> sleeps w1 = sleeps w
           \<and> fetch_loop e sd (a # rest) w =
               (if a < RETRIES then fetch_loop e sd rest (time_sleep (RETRY_DELAY * a) w1)
                else (Inl ex, w1))"
proof -
  let ?w1 = "logging WARNING
      (''Attempt '' @ show_nat a @ '': failed to download VIX: '' @ str_exn ex)
      (snd (fetch_attempt e sd w))"
  from assms have "fetch_loop e sd (a # rest) w =
               (if a < RETRIES then fetch_loop e sd rest (time_sleep (RETRY_DELAY * a) ?w1)
                else (Inl ex, ?w1))"
    by (simp add: split_def Let_def fetch_attempt_fst)
  moreover have "downloads ?w1 = downloads w + 1" "posts ?w1 = posts w" "sleeps ?w1 = sleeps w"
    by simp_all
  ultimately show ?thesis by blast
qed

lemma send_loop_success:
  assumes "send_outcome e rq (length (posts w)) = Inr js"
  shows "send_loop e rq (a # rest) w = (Inr (Some js), snd (send_attempt e rq w))"
  using assms by (simp add: split_def send_attempt_fst)

lemma send_loop_failure:
  assumes "send_outcome e rq (length (posts w)) = Inl ex"
  shows "\<exists>w1. downloads w1 = downloads w \<and> posts w1 = posts w @ [rq] \<and> sleeps w1 = sleeps w
           \<and> send_loop e rq (a # rest) w =
               (if a < RETRIES then send_loop e rq rest (time_sleep (RETRY_DELAY * a) w1)
                else (Inl ex, w1))"
proof -
  let ?w1 = "logging WARNING
      (''Attempt '' @ show_nat a @ '': failed to send Telegram message: '' @ str_exn ex)
      (snd (send_attempt e rq w))"
  from assms have "send_loop e rq (a # rest) w =
               (if a < RETRIES then send_loop e rq rest (time_sleep (RETRY_DELAY * a) ?w1)
                else (Inl ex, ?w1))"
    by (simp add: split_def Let_def send_attempt_fst)
  moreover have "downloads ?w1 = downloads w" "posts ?w1 = posts w @ [rq]" "sleeps ?w1 = sleeps w"
    by simp_all
  ultimately show ?thesis by blast
qed

declare fetch_loop.simps(2) [simp del] send_loop.simps(2) [simp del]

subsection \<open>Runs of the fetcher\<close>

text \<open>
  A run of the fetcher is described by the number \<open>n\<close> of attempts that failed before the
  attempt that decided it.
\<close>

lemma fetch_vix_success_0:
  assumes "fetch_outcome e sd (downloads w) = Inr s"
  shows "fst (fetch_vix e sd w) = Inr (Some s)"
    "downloads (snd (fetch_vix e sd w)) = downloads w + 1"
    "posts (snd (fetch_vix e sd w)) = posts w"
    "sleeps (snd (fetch_vix e sd w)) = sleeps w"
  unfolding fetch_vix_def attempts_list
  using fetch_loop_success [OF assms] by simp_all

lemma fetch_vix_fail_1:
  assumes "fetch_outcome e sd (downloads w) = Inl ex"
  shows "\<exists>w1. downloads w1 = downloads w + 1 \<and> posts w1 = posts w \<and> sleeps w1 = sleeps w @ [5]
           \<and> fetch_vix e sd w = fetch_loop e sd [2, 3] w1"
proof -
  from fetch_loop_failure [OF assms, of 1 "[2, 3]"] obtain w1 where
    "downloads w1 = downloads w + 1" "posts w1 = posts w" "sleeps w1 = sleeps w"
    "fetch_loop e sd [1, 2, 3] w = fetch_loop e sd [2, 3] (time_sleep (RETRY_DELAY * 1) w1)"
    by (auto simp add: RETRIES_def)
  then show ?thesis
    unfolding fetch_vix_def attempts_list
    by (intro exI [of _ "time_sleep (RETRY_DELAY * 1) w1"]) (simp add: RETRY_DELAY_def)
qed

lemma fetch_loop_23_success:
  assumes "fetch_outcome e sd (downloads w) = Inr s"
  shows "fst (fetch_loop e sd [2, 3] w) = Inr (Some s)"
    "downloads (snd (fetch_loop e sd [2, 3] w)) = downloads w + 1"
    "posts (snd (fetch_loop e sd [2, 3] w)) = posts w"
    "sleeps (snd (fetch_loop e sd [2, 3] w)) = sleeps w"
  using fetch_loop_success [OF assms] by simp_all

lemma fetch_loop_23_fail:
  assumes "fetch_outcome e sd (downloads w) = Inl ex"
  shows "\<exists>w1. downloads w1 = downloads w + 1 \<and> posts w1 = posts w \<and> sleeps w1 = sleeps w @ [10]
           \<and> fetch_loop e sd [2, 3] w = fetch_loop e sd [3] w1"
proof -
  from fetch_loop_failure [OF assms, of 2 "[3]"] obtain w1 where
    "downloads w1 = downloads w + 1" "posts w1 = posts w" "sleeps w1 = sleeps w"
    "fetch_loop e sd [2, 3] w = fetch_loop e sd [3] (time_sleep (RETRY_DELAY * 2) w1)"
    by (auto simp add: RETRIES_def)
  then show ?thesis
    by (intro exI [of _ "time_sleep (RETRY_DELAY * 2) w1"]) (simp add: RETRY_DELAY_def)
qed

lemma fetch_loop_3_success:
  assumes "fetch_outcome e sd (downloads w) = Inr s"
  shows "fst (fetch_loop e sd [3] w) = Inr (Some s)"
    "downloads (snd (fetch_loop e sd [3] w)) = downloads w + 1"
    "posts (snd (fetch_loop e sd [3] w)) = posts w"
    "sleeps (snd (fetch_loop e sd [3] w)) = sleeps w"
  using fetch_loop_success [OF assms] by simp_all

lemma fetch_loop_3_fail:
  assumes "fetch_outcome e sd (downloads w) = Inl ex"
  shows "fst (fetch_loop e sd [3] w) = Inl ex"
    "downloads (snd (fetch_loop e sd [3] w)) = downloads w + 1"
    "posts (snd (fetch_loop e sd [3] w)) = posts w"
    "sleeps (snd (fetch_loop e sd [3] w)) = sleeps w"
  using fetch_loop_failure [OF assms, of 3 "[]"] by (auto simp add: RETRIES_def)

lemma fetch_vix_after_failures:
  assumes "\<forall>k<n. fetch_outcome e sd (downloads w + k) = Inl (fx k)" "n < 3"
    and "fetch_outcome e sd (downloads w + n) = Inr s"
  shows "fst (fetch_vix e sd w) = Inr (Some s)
       \<and> downloads (snd (fetch_vix e sd w)) = downloads w + n + 1
       \<and> posts (snd (fetch_vix e sd w)) = posts w
       \<and> sleeps (snd (fetch_vix e sd w)) = sleeps w @ map (\<lambda>a. 5 * a) [1..<n + 1]"
proof -
  from assms(2) consider "n = 0" | "n = 1" | "n = 2" by linarith
  then show ?thesis
  proof cases
    case 1
    with assms(3) fetch_vix_success_0 [of e sd w s] show ?thesis by simp
  next
    case 2
    with assms(1) [rule_format, of 0]
    have f0: "fetch_outcome e sd (downloads w) = Inl (fx 0)" by simp
    from fetch_vix_fail_1 [OF f0] obtain w1 where w1:
      "downloads w1 = downloads w + 1" "posts w1 = posts w" "sleeps w1 = sleeps w @ [5]"
      "fetch_vix e sd w = fetch_loop e sd [2, 3] w1"
      by blast
    from assms(3) 2 w1 have "fetch_outcome e sd (downloads w1) = Inr s" by simp
    from fetch_loop_23_success [OF this] w1 2 show ?thesis by (simp add: upt_rec)
  next
    case 3
    with assms(1) [rule_format, of 0]
    have f0: "fetch_outcome e sd (downloads w) = Inl (fx 0)" by simp
    from fetch_vix_fail_1 [OF f0] obtain w1 where w1:
      "downloads w1 = downloads w + 1" "posts w1 = posts w" "sleeps w1 = sleeps w @ [5]"
      "fetch_vix e sd w = fetch_loop e sd [2, 3] w1"
      by blast
    from assms(1) [rule_format, of 1] 3 w1
    have "fetch_outcome e sd (downloads w1) = Inl (fx 1)" by simp
    from fetch_loop_23_fail [OF this] obtain w2 where w2:
      "downloads w2 = downloads w1 + 1" "posts w2 = posts w1" "sleeps w2 = sleeps w1 @ [10]"
      "fetch_loop e sd [2, 3] w1 = fetch_loop e sd [3] w2"
      by blast
    from assms(3) 3 w1 w2 have "fetch_outcome e sd (downloads w2) = Inr s" by simp
    from fetch_loop_3_success [OF this] w1 w2 3 show ?thesis by (simp add: upt_rec)
  qed
qed

lemma fetch_vix_all_fail:
  assumes "\<forall>k<3. fetch_outcome e sd (downloads w + k) = Inl (fx k)"
  shows "fst (fetch_vix e sd w) = Inl (fx 2)
       \<and> downloads (snd (fetch_vix e sd w)) = downloads w + 3
       \<and> posts (snd (fetch_vix e sd w)) = posts w
       \<and> sleeps (snd (fetch_vix e sd w)) = sleeps w @ [5, 10]"
proof -
  from assms [rule_format, of 0]
  have f0: "fetch_outcome e sd (downloads w) = Inl (fx 0)" by simp
  from fetch_vix_fail_1 [OF f0] obtain w1 where w1:
    "downloads w1 = downloads w + 1" "posts w1 = posts w" "sleeps w1 = sleeps w @ [5]"
    "fetch_vix e sd w = fetch_loop e sd [2, 3] w1"
    by blast
  from assms [rule_format, of 1] w1
  have "fetch_outcome e sd (downloads w1) = Inl (fx 1)" by simp
  from fetch_loop_23_fail [OF this] obtain w2 where w2:
    "downloads w2 = downloads w1 + 1" "posts w2 = posts w1" "sleeps w2 = sleeps w1 @ [10]"
    "fetch_loop e sd [2, 3] w1 = fetch_loop e sd [3] w2"
    by blast
  from assms [rule_format, of 2] w1 w2
  have "fetch_outcome e sd (downloads w2) = Inl (fx 2)" by simp
  from fetch_loop_3_fail [OF this] w1 w2 show ?thesis by simp
qed

subsection \<open>Runs of the notifier\<close>

lemma send_loop_123_success:
  assumes "send_outcome e rq (length (posts w)) = Inr js"
  shows "fst (send_loop e rq [1, 2, 3] w) = Inr (Some js)"
    "downloads (snd (send_loop e rq [1, 2, 3] w)) = downloads w"
    "posts (snd (send_loop e rq [1, 2, 3] w)) = posts w @ [rq]"
    "sleeps (snd (send_loop e rq [1, 2, 3] w)) = sleeps w"
  using send_loop_success [OF assms] by simp_all

lemma send_loop_123_fail:
  assumes "send_outcome e rq (length (posts w)) = Inl ex"
  shows "\<exists>w1. downloads w1 = downloads w \<and> posts w1 = posts w @ [rq]
           \<and> sleeps w1 = sleeps w @ [5]
           \<and> send_loop e rq [1, 2, 3] w = send_loop e rq [2, 3] w1"
proof -
  from send_loop_failure [OF assms, of 1 "[2, 3]"] obtain w1 where
    "downloads w1 = downloads w" "posts w1 = posts w @ [rq]" "sleeps w1 = sleeps w"
    "send_loop e rq [1, 2, 3] w = send_loop e rq [2, 3] (time_sleep (RETRY_DELAY * 1) w1)"
    by (auto simp add: RETRIES_def)
  then show ?thesis
    by (intro exI [of _ "time_sleep (RETRY_DELAY * 1) w1"]) (simp add: RETRY_DELAY_def)
qed

lemma send_loop_23_success:
  assumes "send_outcome e rq (length (posts w)) = Inr js"
  shows "fst (send_loop e rq [2, 3] w) = Inr (Some js)"
    "downloads (snd (send_loop e rq [2, 3] w)) = downloads w"
    "posts (snd (send_loop e rq [2, 3] w)) = posts w @ [rq]"
    "sleeps (snd (send_loop e rq [2, 3] w)) = sleeps w"
  using send_loop_success [OF assms] by simp_all

lemma send_loop_23_fail:
  assumes "send_outcome e rq (length (posts w)) = Inl ex"
  shows "\<exists>w1. downloads w1 = downloads w \<and> posts w1 = posts w @ [rq]
           \<and> sleeps w1 = sleeps w @ [10]
           \<and> send_loop e rq [2, 3] w = send_loop e rq [3] w1"
proof -
  from send_loop_failure [OF assms, of 2 "[3]"] obtain w1 where
    "downloads w1 = downloads w" "posts w1 = posts w @ [rq]" "sleeps w1 = sleeps w"
    "send_loop e rq [2, 3] w = send_loop e rq [3] (time_sleep (RETRY_DELAY * 2) w1)"
    by (auto simp add: RETRIES_def)
  then show ?thesis
    by (intro exI [of _ "time_sleep (RETRY_DELAY * 2) w1"]) (simp add: RETRY_DELAY_def)
qed

lemma send_loop_3_success:
  assumes "send_outcome e rq (length (posts w)) = Inr js"
  shows "fst (send_loop e rq [3] w) = Inr (Some js)"
    "downloads (snd (send_loop e rq [3] w)) = downloads w"
    "posts (snd (send_loop e rq [3] w)) = posts w @ [rq]"
    "sleeps (snd (send_loop e rq [3] w)) = sleeps w"
  using send_loop_success [OF assms] by simp_all

lemma send_loop_3_fail:
  assumes "send_outcome e rq (length (posts w)) = Inl ex"
  shows "fst (send_loop e rq [3] w) = Inl ex"
    "downloads (snd (send_loop e rq [3] w)) = downloads w"
    "posts (snd (send_loop e rq [3] w)) = posts w @ [rq]"
    "sleeps (snd (send_loop e rq [3] w)) = sleeps w"
  using send_loop_failure [OF assms, of 3 "[]"] by (auto simp add: RETRIES_def)

lemma send_telegram_loop:
  "send_telegram e tok chat txt w = send_loop e (telegram_request tok chat txt) [1, 2, 3] w"
  by (simp add: send_telegram_def attempts_list del: One_nat_def)

lemma send_telegram_after_failures:
  assumes "\<forall>k<n. send_outcome e (telegram_request tok chat txt) (length (posts w) + k)
                   = Inl (sx k)" "n < 3"
    and "send_outcome e (telegram_request tok chat txt) (length (posts w) + n) = Inr js"
  shows "fst (send_telegram e tok chat txt w) = Inr (Some js)
       \<and> downloads (snd (send_telegram e tok chat txt w)) = downloads w
       \<and> posts (snd (send_telegram e tok chat txt w)) =
           posts w @ replicate (n + 1) (telegram_request tok chat txt)
       \<and> sleeps (snd (send_telegram e tok chat txt w)) =
           sleeps w @ map (\<lambda>a. 5 * a) [1..<n + 1]"
proof -
  let ?rq = "telegram_request tok chat txt"
  from assms(2) consider "n = 0" | "n = 1" | "n = 2" by linarith
  then show ?thesis
  proof cases
    case 1
    with assms(3) send_loop_123_success [of e ?rq w js] show ?thesis
      by (simp add: send_telegram_loop)
  next
    case 2
    with assms(1) [rule_format, of 0]
    have f0: "send_outcome e ?rq (length (posts w)) = Inl (sx 0)" by simp
    from send_loop_123_fail [OF f0] obtain w1 where w1:
      "downloads w1 = downloads w" "posts w1 = posts w @ [?rq]" "sleeps w1 = sleeps w @ [5]"
      "send_loop e ?rq [1, 2, 3] w = send_loop e ?rq [2, 3] w1"
      by blast
    from assms(3) 2 w1 have "send_outcome e ?rq (length (posts w1)) = Inr js" by simp
    from send_loop_23_success [OF this] w1 2 show ?thesis
      by (simp add: send_telegram_loop upt_rec)
  next
    case 3
    with assms(1) [rule_format, of 0]
    have f0: "send_outcome e ?rq (length (posts w)) = Inl (sx 0)" by simp
    from send_loop_123_fail [OF f0] obtain w1 where w1:
      "downloads w1 = downloads w" "posts w1 = posts w @ [?rq]" "sleeps w1 = sleeps w @ [5]"
      "send_loop e ?rq [1, 2, 3] w = send_loop e ?rq [2, 3] w1"
      by blast
    from assms(1) [rule_format, of 1] 3 w1
    have "send_outcome e ?rq (length (posts w1)) = Inl (sx 1)" by simp
    from send_loop_23_fail [OF this] obtain w2 where w2:
      "downloads w2 = downloads w1" "posts w2 = posts w1 @ [?rq]" "sleeps w2 = sleeps w1 @ [10]"
      "send_loop e ?rq [2, 3] w1 = send_loop e ?rq [3] w2"
      by blast
    from assms(3) 3 w1 w2 have "send_outcome e ?rq (length (posts w2)) = Inr js" by simp
    from send_loop_3_success [OF this] w1 w2 3 show ?thesis
      by (simp add: send_telegram_loop upt_rec numeral_3_eq_3)
  qed
qed

lemma send_telegram_all_fail:
  assumes "\<forall>k<3. send_outcome e (telegram_request tok chat txt) (length (posts w) + k)
                   = Inl (sx k)"
  shows "fst (send_telegram e tok chat txt w) = Inl (sx 2)
       \<and> downloads (snd (send_telegram e tok chat txt w)) = downloads w
       \<and> posts (snd (send_telegram e tok chat txt w)) =
           posts w @ replicate 3 (telegram_request tok chat txt)
       \<and> sleeps (snd (send_telegram e tok chat txt w)) = sleeps w @ [5, 10]"
proof -
  let ?rq = "telegram_request tok chat txt"
  from assms [rule_format, of 0]
  have f0: "send_outcome e ?rq (length (posts w)) = Inl (sx 0)" by simp
  from send_loop_123_fail [OF f0] obtain w1 where w1:
    "downloads w1 = downloads w" "posts w1 = posts w @ [?rq]" "sleeps w1 = sleeps w @ [5]"
    "send_loop e ?rq [1, 2, 3] w = send_loop e ?rq [2, 3] w1"
    by blast
  from assms [rule_format, of 1] w1
  have "send_outcome e ?rq (length (posts w1)) = Inl (sx 1)" by simp
  from send_loop_23_fail [OF this] obtain w2 where w2:
    "downloads w2 = downloads w1" "posts w2 = posts w1 @ [?rq]" "sleeps w2 = sleeps w1 @ [10]"
    "send_loop e ?rq [2, 3] w1 = send_loop e ?rq [3] w2"
    by blast
  from assms [rule_format, of 2] w1 w2
  have "send_outcome e ?rq (length (posts w2)) = Inl (sx 2)" by simp
  from send_loop_3_fail [OF this] w1 w2 show ?thesis
    by (simp add: send_telegram_loop numeral_3_eq_3)
qed


text \<open>
  Claim C2.  When the three attempts of the fetcher all fail, it raises the error of the
  third attempt, having made three downloads and slept 5 and then 10 seconds; when \<open>n\<close>
  attempts fail and the next one succeeds, it returns the result of that attempt, having made
  \<open>n + 1\<close> downloads and slept \<open>5 * a\<close> seconds after each failed attempt \<open>a\<close>.  The same
  holds for the notifier and its POST requests.
\<close>

theorem retry_policy:
  "((\<forall>k<3. fetch_outcome e sd (downloads w + k) = Inl (fx k)) \<longrightarrow>
        fst (fetch_vix e sd w) = Inl (fx 2)
      \<and> downloads (snd (fetch_vix e sd w)) = downloads w + 3
      \<and> sleeps (snd (fetch_vix e sd w)) = sleeps w @ [5, 10])
   \<and> (n < 3 \<and> (\<forall>k<n. fetch_outcome e sd (downloads w + k) = Inl (fx k))
        \<and> fetch_outcome e sd (downloads w + n) = Inr s \<longrightarrow>
        fst (fetch_vix e sd w) = Inr (Some s)
      \<and> downloads (snd (fetch_vix e sd w)) = downloads w + n + 1
      \<and> sleeps (snd (fetch_vix e sd w)) = sleeps w @ map (\<lambda>a. 5 * a) [1..<n + 1])
   \<and> ((\<forall>k<3. send_outcome e (telegram_request tok chat txt) (length (posts w) + k)
                 = Inl (sx k)) \<longrightarrow>
        fst (send_telegram e tok chat txt w) = Inl (sx 2)
      \<and> posts (snd (send_telegram e tok chat txt w)) =
          posts w @ replicate 3 (telegram_request tok chat txt)
      \<and> sleeps (snd (send_telegram e tok chat txt w)) = sleeps w @ [5, 10])
   \<and> (m < 3 \<and> (\<forall>k<m. send_outcome e (telegram_request tok chat txt) (length (posts w) + k)
                 = Inl (sx k))
        \<and> send_outcome e (telegram_request tok chat txt) (length (posts w) + m) = Inr js \<longrightarrow>
        fst (send_telegram e tok chat txt w) = Inr (Some js)
      \<and> posts (snd (send_telegram e tok chat txt w)) =
          posts w @ replicate (m + 1) (telegram_request tok chat txt)
      \<and> sleeps (snd (send_telegram e tok chat txt w)) = sleeps w @ map (\<lambda>a. 5 * a) [1..<m + 1])"
  using fetch_vix_all_fail [of e sd w fx] fetch_vix_after_failures [of n e sd w fx s]
    send_telegram_all_fail [of e tok chat "txt" w sx]
    send_telegram_after_failures [of m e tok chat "txt" w sx js]
  by blast

text \<open>
  The theorem on services that are down (every call raises), on a download that succeeds at
  the second attempt and on a POST that succeeds at the third.
\<close>

theorem retry_policy_witness:
  "fst (fetch_vix (services (\<lambda>k. Inl (ExternalError ''down'')) (\<lambda>k. Inr response_ok))
          ''2010-01-01'' world0) = Inl (ExternalError ''down'')
   \<and> sleeps (snd (fetch_vix (services (\<lambda>k. Inl (ExternalError ''down'')) (\<lambda>k. Inr response_ok))
          ''2010-01-01'' world0)) = [5, 10]
   \<and> downloads (snd (fetch_vix (services (\<lambda>k. Inl (ExternalError ''down'')) (\<lambda>k. Inr response_ok))
          ''2010-01-01'' world0)) = 3
   \<and> fst (fetch_vix (services (\<lambda>k. if k = 0 then Inl (ExternalError ''down'') else Inr frame_A)
                         (\<lambda>k. Inr response_ok)) ''2010-01-01'' world0) = Inr (Some series_A)
   \<and> sleeps (snd (fetch_vix (services (\<lambda>k. if k = 0 then Inl (ExternalError ''down'') else Inr frame_A)
                         (\<lambda>k. Inr response_ok)) ''2010-01-01'' world0)) = [5]
   \<and> downloads (snd (fetch_vix (services (\<lambda>k. if k = 0 then Inl (ExternalError ''down'') else Inr frame_A)
                         (\<lambda>k. Inr response_ok)) ''2010-01-01'' world0)) = 2
   \<and> fst (send_telegram (services (\<lambda>k. Inr frame_A) (\<lambda>k. Inl (ExternalError ''down'')))
          ''T'' ''C'' ''hello'' world0) = Inl (ExternalError ''down'')
   \<and> sleeps (snd (send_telegram (services (\<lambda>k. Inr frame_A) (\<lambda>k. Inl (ExternalError ''down'')))
          ''T'' ''C'' ''hello'' world0)) = [5, 10]
   \<and> length (posts (snd (send_telegram (services (\<lambda>k. Inr frame_A) (\<lambda>k. Inl (ExternalError ''down'')))
          ''T'' ''C'' ''hello'' world0))) = 3
   \<and> fst (send_telegram (services (\<lambda>k. Inr frame_A)
                             (\<lambda>k. if k < 2 then Inr response_500 else Inr response_ok))
          ''T'' ''C'' ''hello'' world0) = Inr (Some ''{}'')
   \<and> sleeps (snd (send_telegram (services (\<lambda>k. Inr frame_A)
                             (\<lambda>k. if k < 2 then Inr response_500 else Inr response_ok))
          ''T'' ''C'' ''hello'' world0)) = [5, 10]
   \<and> length (posts (snd (send_telegram (services (\<lambda>k. Inr frame_A)
                             (\<lambda>k. if k < 2 then Inr response_500 else Inr response_ok))
          ''T'' ''C'' ''hello'' world0))) = 3"
proof -
  let ?down = "services (\<lambda>k. Inl (ExternalError ''down'')) (\<lambda>k. Inr response_ok)"
  let ?flaky = "services (\<lambda>k. if k = 0 then Inl (ExternalError ''down'') else Inr frame_A)
                         (\<lambda>k. Inr response_ok)"
  let ?mute = "services (\<lambda>k. Inr frame_A) (\<lambda>k. Inl (ExternalError ''down''))"
  let ?busy = "services (\<lambda>k. Inr frame_A)
                             (\<lambda>k. if k < 2 then Inr response_500 else Inr response_ok)"
  let ?rq = "telegram_request ''T'' ''C'' ''hello''"
  have A: "\<forall>k<3. fetch_outcome ?down ''2010-01-01'' (downloads world0 + k)
             = Inl ((\<lambda>k. ExternalError ''down'') k)"
    by (simp add: fetch_outcome_def services_def)
  have B: "(1::nat) < 3 \<and> (\<forall>k<1. fetch_outcome ?flaky ''2010-01-01'' (downloads world0 + k)
             = Inl ((\<lambda>k. ExternalError ''down'') k))
           \<and> fetch_outcome ?flaky ''2010-01-01'' (downloads world0 + 1) = Inr series_A"
    by (simp add: fetch_outcome_def services_def world0_def frame_A_def series_A_def
        df_empty_def df_has_column_def df_getitem_def upt_rec)
  have C: "\<forall>k<3. send_outcome ?mute ?rq (length (posts world0) + k)
             = Inl ((\<lambda>k. ExternalError ''down'') k)"
    by (simp add: send_outcome_def services_def)
  have D: "(2::nat) < 3 \<and> (\<forall>k<2. send_outcome ?busy ?rq (length (posts world0) + k)
             = Inl ((\<lambda>k. HTTPError 500 ''Internal Server Error'' (req_url ?rq)) k))
           \<and> send_outcome ?busy ?rq (length (posts world0) + 2) = Inr ''{}''"
    by (simp add: send_outcome_def services_def world0_def response_500_def response_ok_def
        raise_for_status_def)
  from A retry_policy [of ?down "''2010-01-01''" world0 "\<lambda>k. ExternalError ''down''"]
  have 1: "fst (fetch_vix ?down ''2010-01-01'' world0) = Inl (ExternalError ''down'')
      \<and> downloads (snd (fetch_vix ?down ''2010-01-01'' world0)) = downloads world0 + 3
      \<and> sleeps (snd (fetch_vix ?down ''2010-01-01'' world0)) = sleeps world0 @ [5, 10]"
    by blast
  from B retry_policy [of ?flaky "''2010-01-01''" world0 "\<lambda>k. ExternalError ''down''" 1 series_A]
  have 2: "fst (fetch_vix ?flaky ''2010-01-01'' world0) = Inr (Some series_A)
      \<and> downloads (snd (fetch_vix ?flaky ''2010-01-01'' world0)) = downloads world0 + 1 + 1
      \<and> sleeps (snd (fetch_vix ?flaky ''2010-01-01'' world0))
          = sleeps world0 @ map (\<lambda>a. 5 * a) [1..<1 + 1]"
    by blast
  from C retry_policy [of ?mute _ world0 _ _ _ "''T''" "''C''" "''hello''"
      "\<lambda>k. ExternalError ''down''"]
  have 3: "fst (send_telegram ?mute ''T'' ''C'' ''hello'' world0) = Inl (ExternalError ''down'')
      \<and> posts (snd (send_telegram ?mute ''T'' ''C'' ''hello'' world0)) =
          posts world0 @ replicate 3 ?rq
      \<and> sleeps (snd (send_telegram ?mute ''T'' ''C'' ''hello'' world0)) = sleeps world0 @ [5, 10]"
    by blast
  from D retry_policy [of ?busy _ world0 _ _ _ "''T''" "''C''" "''hello''"
      "\<lambda>k. HTTPError 500 ''Internal Server Error'' (req_url ?rq)" 2 "''{}''"]
  have 4: "fst (send_telegram ?busy ''T'' ''C'' ''hello'' world0) = Inr (Some ''{}'')
      \<and> posts (snd (send_telegram ?busy ''T'' ''C'' ''hello'' world0)) =
          posts world0 @ replicate (2 + 1) ?rq
      \<and> sleeps (snd (send_telegram ?busy ''T'' ''C'' ''hello'' world0))
          = sleeps world0 @ map (\<lambda>a. 5 * a) [1..<2 + 1]"
    by blast
  from 1 2 3 4 show ?thesis
    by (simp add: world0_def upt_rec)
qed


subsection \<open>Runs of any length\<close>

lemma fetch_loop_posts: "posts (snd (fetch_loop e sd as w)) = posts w"
proof (induction as arbitrary: w)
  case Nil
  show ?case by simp
next
  case (Cons a as)
  show ?case
  proof (cases "fetch_outcome e sd (downloads w)")
    case (Inr s)
    from fetch_loop_success [OF this] show ?thesis by simp
  next
    case (Inl ex)
    from fetch_loop_failure [OF this, of a as] obtain w1 where
      "posts w1 = posts w"
      "fetch_loop e sd (a # as) w =
         (if a < RETRIES then fetch_loop e sd as (time_sleep (RETRY_DELAY * a) w1)
          else (Inl ex, w1))"
      by blast
    with Cons.IH [of "time_sleep (RETRY_DELAY * a) w1"] show ?thesis by simp
  qed
qed

lemma fetch_loop_Some:
  "fetch_loop e sd as w = (Inr (Some s), w') \<Longrightarrow>
     \<exists>k. downloads w \<le> k \<and> k < downloads w' \<and> fetch_outcome e sd k = Inr s"
proof (induction as arbitrary: w)
  case Nil
  then show ?case by simp
next
  case (Cons a as)
  show ?case
  proof (cases "fetch_outcome e sd (downloads w)")
    case (Inr s0)
    from fetch_loop_success [OF this, of a as] Cons.prems
    have "s0 = s" "w' = snd (fetch_attempt e sd w)" by simp_all
    with Inr show ?thesis by (intro exI [of _ "downloads w"]) simp
  next
    case (Inl ex)
    from fetch_loop_failure [OF this, of a as] obtain w1 where w1:
      "downloads w1 = downloads w + 1"
      "fetch_loop e sd (a # as) w =
         (if a < RETRIES then fetch_loop e sd as (time_sleep (RETRY_DELAY * a) w1)
          else (Inl ex, w1))"
      by blast
    with Cons.prems have
      "fetch_loop e sd as (time_sleep (RETRY_DELAY * a) w1) = (Inr (Some s), w')"
      by (simp split: if_splits)
    from Cons.IH [OF this] obtain k where
      "downloads (time_sleep (RETRY_DELAY * a) w1) \<le> k" "k < downloads w'"
      "fetch_outcome e sd k = Inr s"
      by blast
    with w1(1) show ?thesis by (intro exI [of _ k]) simp

  qed
qed

lemma fetch_loop_not_None:
  "as \<noteq> [] \<Longrightarrow> \<not> last as < RETRIES \<Longrightarrow> fst (fetch_loop e sd as w) \<noteq> Inr None"
proof (induction as arbitrary: w)
  case Nil
  then show ?case by simp
next
  case (Cons a as)
  show ?case
  proof (cases "fetch_outcome e sd (downloads w)")
    case (Inr s0)
    from fetch_loop_success [OF this, of a as] show ?thesis by simp
  next
    case (Inl ex)
    from fetch_loop_failure [OF this, of a as] obtain w1 where w1:
      "fetch_loop e sd (a # as) w =
         (if a < RETRIES then fetch_loop e sd as (time_sleep (RETRY_DELAY * a) w1)
          else (Inl ex, w1))"
      by blast
    show ?thesis
    proof (cases "a < RETRIES")
      case True
      with Cons.prems have "as \<noteq> []" "\<not> last as < RETRIES" by (auto split: if_splits)
      from Cons.IH [OF this] w1 True show ?thesis by simp
    next
      case False
      with w1 show ?thesis by simp
    qed
  qed
qed

lemma fetch_vix_not_None: "fst (fetch_vix e sd w) \<noteq> Inr None"
  unfolding fetch_vix_def attempts_list
  by (rule fetch_loop_not_None) (simp_all add: RETRIES_def)

lemma send_loop_posts:
  "\<exists>n. n \<le> length as \<and> (as \<noteq> [] \<longrightarrow> 1 \<le> n)
      \<and> posts (snd (send_loop e rq as w)) = posts w @ replicate n rq
      \<and> downloads (snd (send_loop e rq as w)) = downloads w"
proof (induction as arbitrary: w)
  case Nil
  show ?case by simp
next
  case (Cons a as)
  show ?case
  proof (cases "send_outcome e rq (length (posts w))")
    case (Inr js)
    from send_loop_success [OF this, of a as] show ?thesis
      by (intro exI [of _ 1]) simp
  next
    case (Inl ex)
    from send_loop_failure [OF this, of a as] obtain w1 where w1:
      "downloads w1 = downloads w" "posts w1 = posts w @ [rq]"
      "send_loop e rq (a # as) w =
         (if a < RETRIES then send_loop e rq as (time_sleep (RETRY_DELAY * a) w1)
          else (Inl ex, w1))"
      by blast
    show ?thesis
    proof (cases "a < RETRIES")
      case True
      from Cons.IH [of "time_sleep (RETRY_DELAY * a) w1"] obtain n where
        "n \<le> length as"
        "posts (snd (send_loop e rq as (time_sleep (RETRY_DELAY * a) w1))) =
           posts (time_sleep (RETRY_DELAY * a) w1) @ replicate n rq"
        "downloads (snd (send_loop e rq as (time_sleep (RETRY_DELAY * a) w1))) =
           downloads (time_sleep (RETRY_DELAY * a) w1)"
        by blast
      with w1 True show ?thesis
        by (intro exI [of _ "Suc n"]) (simp add: replicate_app_Cons_same)
    next
      case False
      with w1 show ?thesis by (intro exI [of _ 1]) simp
    qed
  qed
qed

lemma send_telegram_posts:
  "\<exists>n. 1 \<le> n \<and> n \<le> 3
      \<and> posts (snd (send_telegram e tok chat msg w)) =
          posts w @ replicate n (telegram_request tok chat msg)
      \<and> downloads (snd (send_telegram e tok chat msg w)) = downloads w"
proof -
  from send_loop_posts [of "[1, 2, 3]" e "telegram_request tok chat msg" w]
  obtain n where "n \<le> 3" "1 \<le> n"
    "posts (snd (send_loop e (telegram_request tok chat msg) [1, 2, 3] w)) =
       posts w @ replicate n (telegram_request tok chat msg)"
    "downloads (snd (send_loop e (telegram_request tok chat msg) [1, 2, 3] w)) = downloads w"
    by auto
  then show ?thesis
    by (intro exI [of _ n]) (simp add: send_telegram_loop del: One_nat_def)
qed

lemma fetch_outcome_Inr:
  assumes "fetch_outcome e sd k = Inr s"
  shows "s \<noteq> [] \<and> (\<exists>df. yf_download e k sd = Inr df \<and> \<not> df_empty df
           \<and> df_has_column df ''Close'' \<and> df_getitem df ''Close'' = Inr s)"
proof (cases "yf_download e k sd")
  case (Inl ex)
  with assms show ?thesis by (simp add: fetch_outcome_def)
next
  case (Inr df)
  with assms have ok: "\<not> df_empty df" "df_has_column df ''Close''"
    and g: "df_getitem df ''Close'' = Inr s"
    by (auto simp add: fetch_outcome_def split: if_splits)
  from ok(1) have "df_index df \<noteq> []" by (simp add: df_empty_def)
  with g have "s \<noteq> []"
    by (auto simp add: df_getitem_def split: option.splits)
  with Inr ok g show ?thesis by simp
qed

text \<open>
  Claim C9.  A result the fetcher returns is a non-empty series, the \<^verbatim>\<open>Close\<close> column of a
  frame that one of its downloads answered, that frame being non-empty and having the
  column.  A download answered by an empty frame or a frame without the column is a failed
  attempt: it raises, and after the first attempt the fetcher sleeps and goes on with the
  attempts 2 and 3.
\<close>

theorem fetch_vix_nonempty:
  "(fetch_vix e sd w = (Inr r, w') \<longrightarrow>
      (\<exists>s k df. r = Some s \<and> s \<noteq> [] \<and> downloads w \<le> k \<and> k < downloads w'
         \<and> yf_download e k sd = Inr df \<and> \<not> df_empty df \<and> df_has_column df ''Close''
         \<and> df_getitem df ''Close'' = Inr s))
   \<and> (yf_download e (downloads w) sd = Inr df0
        \<and> (df_empty df0 \<or> \<not> df_has_column df0 ''Close'') \<longrightarrow>
        fst (fetch_attempt e sd w) = Inl (RuntimeError MSG_MISSING_CLOSE)
      \<and> (\<exists>w1. downloads w1 = downloads w + 1 \<and> sleeps w1 = sleeps w @ [5]
            \<and> fetch_vix e sd w = fetch_loop e sd [2, 3] w1))"
proof (intro conjI impI)
  assume a: "fetch_vix e sd w = (Inr r, w')"
  with fetch_vix_not_None [of e sd w] obtain s where r: "r = Some s" by (cases r) auto
  with a have "fetch_loop e sd [1, 2, 3] w = (Inr (Some s), w')"
    by (simp add: fetch_vix_def attempts_list del: One_nat_def)
  from fetch_loop_Some [OF this] obtain k where
    k: "downloads w \<le> k" "k < downloads w'" "fetch_outcome e sd k = Inr s"
    by blast
  from fetch_outcome_Inr [OF k(3)] k r
  show "\<exists>s k df. r = Some s \<and> s \<noteq> [] \<and> downloads w \<le> k \<and> k < downloads w'
         \<and> yf_download e k sd = Inr df \<and> \<not> df_empty df \<and> df_has_column df ''Close''
         \<and> df_getitem df ''Close'' = Inr s"
    by blast
next
  assume b: "yf_download e (downloads w) sd = Inr df0
        \<and> (df_empty df0 \<or> \<not> df_has_column df0 ''Close'')"
  then have o: "fetch_outcome e sd (downloads w) = Inl (RuntimeError MSG_MISSING_CLOSE)"
    by (auto simp add: fetch_outcome_def)
  then show "fst (fetch_attempt e sd w) = Inl (RuntimeError MSG_MISSING_CLOSE)"
    by (simp add: fetch_attempt_fst)
  from fetch_vix_fail_1 [OF o]
  show "\<exists>w1. downloads w1 = downloads w + 1 \<and> sleeps w1 = sleeps w @ [5]
            \<and> fetch_vix e sd w = fetch_loop e sd [2, 3] w1"
    by blast
qed

text \<open>
  The theorem on a service whose first download is an empty frame and whose second download
  is the three day frame: the first attempt raises, the fetcher returns the three day series.
\<close>

theorem fetch_vix_nonempty_witness:
  "fst (fetch_vix (services (\<lambda>k. if k = 0 then Inr frame_empty else Inr frame_A)
                     (\<lambda>k. Inr response_ok)) ''2010-01-01'' world0) = Inr (Some series_A)
   \<and> series_A \<noteq> []
   \<and> df_empty frame_empty
   \<and> fst (fetch_attempt (services (\<lambda>k. if k = 0 then Inr frame_empty else Inr frame_A)
                     (\<lambda>k. Inr response_ok)) ''2010-01-01'' world0)
       = Inl (RuntimeError MSG_MISSING_CLOSE)"
proof -
  let ?e = "services (\<lambda>k. if k = 0 then Inr frame_empty else Inr frame_A)
                     (\<lambda>k. Inr response_ok)"
  let ?sd = "''2010-01-01''"
  have em: "df_empty frame_empty" by (simp add: df_empty_def frame_empty_def)
  have o0: "\<forall>k<1. fetch_outcome ?e ?sd (downloads world0 + k)
              = Inl ((\<lambda>k. RuntimeError MSG_MISSING_CLOSE) k)"
    using em by (simp add: fetch_outcome_def services_def world0_def)
  have o1: "fetch_outcome ?e ?sd (downloads world0 + 1) = Inr series_A"
    by (simp add: fetch_outcome_def services_def world0_def frame_A_def series_A_def
        df_empty_def df_has_column_def df_getitem_def upt_rec)
  from fetch_vix_after_failures [OF o0 _ o1]
  have f: "fst (fetch_vix ?e ?sd world0) = Inr (Some series_A)" by simp
  then have "fetch_vix ?e ?sd world0 = (Inr (Some series_A), snd (fetch_vix ?e ?sd world0))"
    by (metis prod.collapse)
  moreover have "yf_download ?e (downloads world0) ?sd = Inr frame_empty
      \<and> (df_empty frame_empty \<or> \<not> df_has_column frame_empty ''Close'')"
    using em by (simp add: services_def world0_def)
  ultimately have
    "(\<exists>s k df. Some series_A = Some s \<and> s \<noteq> [] \<and> downloads world0 \<le> k
         \<and> k < downloads (snd (fetch_vix ?e ?sd world0))
         \<and> yf_download ?e k ?sd = Inr df \<and> \<not> df_empty df \<and> df_has_column df ''Close''
         \<and> df_getitem df ''Close'' = Inr s)"
    "fst (fetch_attempt ?e ?sd world0) = Inl (RuntimeError MSG_MISSING_CLOSE)"
    using fetch_vix_nonempty [of ?e ?sd world0 "Some series_A"
        "snd (fetch_vix ?e ?sd world0)" frame_empty]
    by blast+
  then have "series_A \<noteq> []"
    "fst (fetch_attempt ?e ?sd world0) = Inl (RuntimeError MSG_MISSING_CLOSE)"
    by auto
  with f em show ?thesis by simp
qed

section \<open>Properties of the orchestrator\<close>

lemma main_missing:
  assumes "\<not> truthy (TELEGRAM_BOT_TOKEN ev) \<or> \<not> truthy (TELEGRAM_CHAT_ID ev)"
  shows "main e ev w =
    (2, logging ERROR ''Missing TELEGRAM_BOT_TOKEN or TELEGRAM_CHAT_ID environment variables'' w)"
  using assms by (auto simp add: main_def)

lemma main_success:
  assumes "truthy (TELEGRAM_BOT_TOKEN ev)" "truthy (TELEGRAM_CHAT_ID ev)"
    and "fst (success_path e (the (TELEGRAM_BOT_TOKEN ev)) (the (TELEGRAM_CHAT_ID ev))
               (DEFAULT_START ev) w) = Inr u"
  shows "main e ev w = (0, snd (success_path e (the (TELEGRAM_BOT_TOKEN ev))
               (the (TELEGRAM_CHAT_ID ev)) (DEFAULT_START ev) w))"
  using assms by (simp add: main_def Let_def split_def)

lemma main_failure:
  assumes "truthy (TELEGRAM_BOT_TOKEN ev)" "truthy (TELEGRAM_CHAT_ID ev)"
    and "fst (success_path e (the (TELEGRAM_BOT_TOKEN ev)) (the (TELEGRAM_CHAT_ID ev))
               (DEFAULT_START ev) w) = Inl ex"
  shows "main e ev w =
    (let w1 = snd (success_path e (the (TELEGRAM_BOT_TOKEN ev)) (the (TELEGRAM_CHAT_ID ev))
                    (DEFAULT_START ev) w);
         st = send_telegram e (the (TELEGRAM_BOT_TOKEN ev)) (the (TELEGRAM_CHAT_ID ev))
                (failure_text ex) (logging ERROR ''Unhandled error in vix_alert'' w1)
     in (1, case fst st of
              Inr js \<Rightarrow> snd st
            | Inl ex2 \<Rightarrow>
                logging ERROR ''Also failed to send failure message to Telegram'' (snd st)))"
  using assms by (simp add: main_def Let_def split_def split: sum.splits)

lemma main_failure_posts:
  assumes "truthy (TELEGRAM_BOT_TOKEN ev)" "truthy (TELEGRAM_CHAT_ID ev)"
    and "success_path e (the (TELEGRAM_BOT_TOKEN ev)) (the (TELEGRAM_CHAT_ID ev))
               (DEFAULT_START ev) w = (Inl ex, w1)"
  shows "fst (main e ev w) = 1
     \<and> (\<exists>n. 1 \<le> n \<and> n \<le> 3
          \<and> posts (snd (main e ev w)) = posts w1 @ replicate n
              (telegram_request (the (TELEGRAM_BOT_TOKEN ev)) (the (TELEGRAM_CHAT_ID ev))
                 (failure_text ex))
          \<and> downloads (snd (main e ev w)) = downloads w1)"
proof -
  let ?tok = "the (TELEGRAM_BOT_TOKEN ev)" and ?chat = "the (TELEGRAM_CHAT_ID ev)"
  let ?st = "send_telegram e ?tok ?chat (failure_text ex)
                (logging ERROR ''Unhandled error in vix_alert'' w1)"
  from assms(3) have "fst (success_path e ?tok ?chat (DEFAULT_START ev) w) = Inl ex"
    "snd (success_path e ?tok ?chat (DEFAULT_START ev) w) = w1"
    by simp_all
  with main_failure [OF assms(1,2), of e w ex]
  have m: "main e ev w = (1, case fst ?st of
              Inr js \<Rightarrow> snd ?st
            | Inl ex2 \<Rightarrow>
                logging ERROR ''Also failed to send failure message to Telegram'' (snd ?st))"
    by (simp add: Let_def)
  from send_telegram_posts [of e ?tok ?chat "failure_text ex"
      "logging ERROR ''Unhandled error in vix_alert'' w1"]
  obtain n where n: "1 \<le> n" "n \<le> 3"
    "posts (snd ?st) = posts w1 @ replicate n (telegram_request ?tok ?chat (failure_text ex))"
    "downloads (snd ?st) = downloads w1"
    by auto
  have "posts (snd (main e ev w)) = posts (snd ?st)"
    "downloads (snd (main e ev w)) = downloads (snd ?st)"
    by (simp_all add: m split: sum.splits)
  with n m show ?thesis by (intro conjI exI [of _ n]) simp_all
qed

lemma success_path_fetch_fail:
  "fst (fetch_vix e sd w) = Inl ex \<Longrightarrow>
     success_path e tok chat sd w = (Inl ex, snd (fetch_vix e sd w))"
  by (simp add: success_path_def split_def)

lemma success_path_observation_fail:
  "fst (fetch_vix e sd w) = Inr (Some vix) \<Longrightarrow> latest_observation vix = Inl ex \<Longrightarrow>
     success_path e tok chat sd w = (Inl ex, snd (fetch_vix e sd w))"
  by (simp add: success_path_def split_def)

lemma success_path_sent:
  assumes "fst (fetch_vix e sd w) = Inr (Some vix)"
    and "latest_observation vix = Inr (date_str, vix_val, ewma_val, above_flag)"
    and "fst (send_telegram e tok chat (create_message date_str vix_val ewma_val above_flag)
           (logging INFO (''Prepared message for '' @ date_str) (snd (fetch_vix e sd w))))
         = Inr js"
  shows "fst (success_path e tok chat sd w) = Inr ()"
  using assms by (simp add: success_path_def split_def Let_def)

lemma success_path_Inr:
  assumes "fst (success_path e tok chat sd w) = Inr u"
  shows "\<exists>vix date_str vix_val ewma_val above_flag js.
           fst (fetch_vix e sd w) = Inr (Some vix)
         \<and> latest_observation vix = Inr (date_str, vix_val, ewma_val, above_flag)
         \<and> fst (send_telegram e tok chat (create_message date_str vix_val ewma_val above_flag)
                  (logging INFO (''Prepared message for '' @ date_str) (snd (fetch_vix e sd w))))
             = Inr js"
  using assms
  by (auto simp add: success_path_def split_def Let_def split: sum.splits option.splits)


text \<open>
  Claim C4.  With a credential missing (unset or empty) \<^verbatim>\<open>main\<close> exits with code 2 and
  has made no download, posted no request and slept for no retry.  With both credentials the
  exit code is 0 when the success path returns and 1 when it raises; and an exit code 0
  means that the fetch returned a series, the observation was built and the alert message
  was delivered.
\<close>

theorem exit_codes:
  "(\<not> truthy (TELEGRAM_BOT_TOKEN ev) \<or> \<not> truthy (TELEGRAM_CHAT_ID ev) \<longrightarrow>
        fst (main e ev w) = 2
      \<and> downloads (snd (main e ev w)) = downloads w
      \<and> posts (snd (main e ev w)) = posts w
      \<and> sleeps (snd (main e ev w)) = sleeps w)
   \<and> (truthy (TELEGRAM_BOT_TOKEN ev) \<and> truthy (TELEGRAM_CHAT_ID ev) \<longrightarrow>
        fst (main e ev w) =
          (case fst (success_path e (the (TELEGRAM_BOT_TOKEN ev)) (the (TELEGRAM_CHAT_ID ev))
                       (DEFAULT_START ev) w) of
             Inl ex \<Rightarrow> 1 | Inr u \<Rightarrow> 0))
   \<and> (fst (main e ev w) = 0 \<longrightarrow>
        (\<exists>vix date_str vix_val ewma_val above_flag js.
           fst (fetch_vix e (DEFAULT_START ev) w) = Inr (Some vix)
         \<and> latest_observation vix = Inr (date_str, vix_val, ewma_val, above_flag)
         \<and> fst (send_telegram e (the (TELEGRAM_BOT_TOKEN ev)) (the (TELEGRAM_CHAT_ID ev))
                  (create_message date_str vix_val ewma_val above_flag)
                  (logging INFO (''Prepared message for '' @ date_str)
                     (snd (fetch_vix e (DEFAULT_START ev) w))))
             = Inr js))"
proof (intro conjI impI)
  assume a: "\<not> truthy (TELEGRAM_BOT_TOKEN ev) \<or> \<not> truthy (TELEGRAM_CHAT_ID ev)"
  from main_missing [OF a, of e w]
  show "fst (main e ev w) = 2" "downloads (snd (main e ev w)) = downloads w"
    "posts (snd (main e ev w)) = posts w" "sleeps (snd (main e ev w)) = sleeps w"
    by simp_all
next
  assume b: "truthy (TELEGRAM_BOT_TOKEN ev) \<and> truthy (TELEGRAM_CHAT_ID ev)"
  let ?sp = "success_path e (the (TELEGRAM_BOT_TOKEN ev)) (the (TELEGRAM_CHAT_ID ev))
                       (DEFAULT_START ev) w"
  show "fst (main e ev w) = (case fst ?sp of Inl ex \<Rightarrow> 1 | Inr u \<Rightarrow> 0)"
  proof (cases "fst ?sp")
    case (Inl ex)
    with b main_failure [of ev e w ex] show ?thesis by (simp add: Let_def)
  next
    case (Inr u)
    with b main_success [of ev e w u] show ?thesis by simp
  qed
next
  assume c: "fst (main e ev w) = 0"
  let ?sp = "success_path e (the (TELEGRAM_BOT_TOKEN ev)) (the (TELEGRAM_CHAT_ID ev))
                       (DEFAULT_START ev) w"
  have "\<not> (\<not> truthy (TELEGRAM_BOT_TOKEN ev) \<or> \<not> truthy (TELEGRAM_CHAT_ID ev))"
  proof
    assume "\<not> truthy (TELEGRAM_BOT_TOKEN ev) \<or> \<not> truthy (TELEGRAM_CHAT_ID ev)"
    from main_missing [OF this, of e w] c show False by simp
  qed
  then have t: "truthy (TELEGRAM_BOT_TOKEN ev)" "truthy (TELEGRAM_CHAT_ID ev)"
    by simp_all
  have "\<exists>u. fst ?sp = Inr u"
  proof (cases "fst ?sp")
    case (Inl ex)
    with t c main_failure [of ev e w ex] show ?thesis by (simp add: Let_def)
  next
    case (Inr u)
    then show ?thesis by blast
  qed
  then obtain u where "fst ?sp = Inr u" by blast
  from success_path_Inr [OF this]
  show "\<exists>vix date_str vix_val ewma_val above_flag js.
           fst (fetch_vix e (DEFAULT_START ev) w) = Inr (Some vix)
         \<and> latest_observation vix = Inr (date_str, vix_val, ewma_val, above_flag)
         \<and> fst (send_telegram e (the (TELEGRAM_BOT_TOKEN ev)) (the (TELEGRAM_CHAT_ID ev))
                  (create_message date_str vix_val ewma_val above_flag)
                  (logging INFO (''Prepared message for '' @ date_str)
                     (snd (fetch_vix e (DEFAULT_START ev) w))))
             = Inr js" .
qed

lemma credentials_truthy:
  "truthy (TELEGRAM_BOT_TOKEN credentials)" "truthy (TELEGRAM_CHAT_ID credentials)"
  "the (TELEGRAM_BOT_TOKEN credentials) = ''T''" "the (TELEGRAM_CHAT_ID credentials) = ''C''"
  "DEFAULT_START credentials = ''2010-01-01''"
  by (simp_all add: credentials_def DEFAULT_START_def)

lemma fetch_outcome_frame_A:
  "fetch_outcome (services (\<lambda>k. Inr frame_A) p) sd k = Inr series_A"
  by (simp add: fetch_outcome_def services_def frame_A_def series_A_def
      df_empty_def df_has_column_def df_getitem_def upt_rec)

lemma latest_observation_series_A:
  "latest_observation series_A = Inr (''2024-01-04'', Some 18, Some (199982 / 10000), 0)"
  by (simp add: latest_observation_def DEFAULT_LAMBDA_def pd_concat_def dropna_def
      series_A_def day_def compute_ewma_def ewm_mean_def ewm_first_def ewm_out_def
      ewm_update_def strftime_ymd_def pad4_def pad2_def digit_chr_def Let_def
      del: not_None_eq)

lemma success_path_all_up:
  "fst (success_path (services (\<lambda>k. Inr frame_A) (\<lambda>k. Inr response_ok))
          ''T'' ''C'' ''2010-01-01'' world0) = Inr ()"
proof -
  let ?e = "services (\<lambda>k. Inr frame_A) (\<lambda>k. Inr response_ok)"
  let ?f = "fetch_vix ?e ''2010-01-01'' world0"
  have f: "fst ?f = Inr (Some series_A)" "posts (snd ?f) = posts world0"
    using fetch_vix_success_0 [OF fetch_outcome_frame_A] by simp_all
  let ?msg = "create_message ''2024-01-04'' (Some 18) (Some (199982 / 10000)) 0"
  let ?w2 = "logging INFO (''Prepared message for '' @ ''2024-01-04'') (snd ?f)"
  have "send_outcome ?e (telegram_request ''T'' ''C'' ?msg) (length (posts ?w2)) = Inr ''{}''"
    by (simp add: send_outcome_def services_def response_ok_def raise_for_status_def)
  from send_loop_123_success(1) [OF this]
  have "fst (send_telegram ?e ''T'' ''C'' ?msg ?w2) = Inr (Some ''{}'')"
    by (simp add: send_telegram_loop)
  from success_path_sent [OF f(1) latest_observation_series_A this] show ?thesis .
qed

text \<open>
  The theorem on three runs: the bot token unset, with exit code 2; every service up, with
  exit code 0; every download failing, with exit code 1.
\<close>

theorem exit_codes_witness:
  "fst (main (services (\<lambda>k. Inr frame_A) (\<lambda>k. Inr response_ok))
          (credentials\<lparr>TELEGRAM_BOT_TOKEN := None\<rparr>) world0) = 2
   \<and> posts (snd (main (services (\<lambda>k. Inr frame_A) (\<lambda>k. Inr response_ok))
          (credentials\<lparr>TELEGRAM_BOT_TOKEN := None\<rparr>) world0)) = []
   \<and> downloads (snd (main (services (\<lambda>k. Inr frame_A) (\<lambda>k. Inr response_ok))
          (credentials\<lparr>TELEGRAM_BOT_TOKEN := None\<rparr>) world0)) = 0
   \<and> fst (main (services (\<lambda>k. Inr frame_A) (\<lambda>k. Inr response_ok)) credentials world0) = 0
   \<and> fst (main (services (\<lambda>k. Inl (ExternalError ''down'')) (\<lambda>k. Inr response_ok))
          credentials world0) = 1"
proof -
  let ?up = "services (\<lambda>k. Inr frame_A) (\<lambda>k. Inr response_ok)"
  let ?down = "services (\<lambda>k. Inl (ExternalError ''down'')) (\<lambda>k. Inr response_ok)"
  let ?ev = "credentials\<lparr>TELEGRAM_BOT_TOKEN := None\<rparr>"
  have "\<not> truthy (TELEGRAM_BOT_TOKEN ?ev) \<or> \<not> truthy (TELEGRAM_CHAT_ID ?ev)" by simp
  with exit_codes [of ?ev ?up world0]
  have 1: "fst (main ?up ?ev world0) = 2" "posts (snd (main ?up ?ev world0)) = []"
    "downloads (snd (main ?up ?ev world0)) = 0"
    by (simp_all add: world0_def)
  have 2: "fst (main ?up credentials world0) = 0"
    using exit_codes [of credentials ?up world0] success_path_all_up
    by (simp add: credentials_truthy)
  have "\<forall>k<3. fetch_outcome ?down ''2010-01-01'' (downloads world0 + k)
             = Inl ((\<lambda>k. ExternalError ''down'') k)"
    by (simp add: fetch_outcome_def services_def)
  from fetch_vix_all_fail [OF this]
  have "fst (fetch_vix ?down ''2010-01-01'' world0) = Inl (ExternalError ''down'')" by simp
  from success_path_fetch_fail [OF this, of "''T''" "''C''"]
  have 3: "fst (main ?down credentials world0) = 1"
    using exit_codes [of credentials ?down world0]
    by (simp add: credentials_truthy)
  from 1 2 3 show ?thesis by simp
qed

text \<open>
  Claim C8.  When the success path raises \<open>ex\<close>, \<^verbatim>\<open>main\<close> calls the notifier once, with a
  text that contains the text of \<open>ex\<close>, which posts that text one to three times.  Whether
  that call returns or raises, the exit code is 1; when it raises, the only further effect is
  one more log line.
\<close>

theorem secondary_failure_swallowed:
  assumes "truthy (TELEGRAM_BOT_TOKEN ev)" "truthy (TELEGRAM_CHAT_ID ev)"
    and "success_path e (the (TELEGRAM_BOT_TOKEN ev)) (the (TELEGRAM_CHAT_ID ev))
               (DEFAULT_START ev) w = (Inl ex, w1)"
  shows "(let st = send_telegram e (the (TELEGRAM_BOT_TOKEN ev)) (the (TELEGRAM_CHAT_ID ev))
                     (failure_text ex) (logging ERROR ''Unhandled error in vix_alert'' w1)
          in fst (main e ev w) = 1
           \<and> sublist (str_exn ex) (failure_text ex)
           \<and> snd (main e ev w) =
               (case fst st of
                  Inr js \<Rightarrow> snd st
                | Inl ex2 \<Rightarrow>
                    logging ERROR ''Also failed to send failure message to Telegram'' (snd st))
           \<and> (\<exists>n. 1 \<le> n \<and> n \<le> 3
                \<and> posts (snd (main e ev w)) = posts w1 @ replicate n
                    (telegram_request (the (TELEGRAM_BOT_TOKEN ev)) (the (TELEGRAM_CHAT_ID ev))
                       (failure_text ex))))"
proof -
  from assms(3) have s:
    "fst (success_path e (the (TELEGRAM_BOT_TOKEN ev)) (the (TELEGRAM_CHAT_ID ev))
               (DEFAULT_START ev) w) = Inl ex"
    "snd (success_path e (the (TELEGRAM_BOT_TOKEN ev)) (the (TELEGRAM_CHAT_ID ev))
               (DEFAULT_START ev) w) = w1"
    by simp_all
  have t: "sublist (str_exn ex) (failure_text ex)"
    unfolding failure_text_def by (metis sublist_append_leftI append.assoc)
  from main_failure_posts [OF assms] obtain n where m1: "fst (main e ev w) = 1"
    and n: "1 \<le> n \<and> n \<le> 3
          \<and> posts (snd (main e ev w)) = posts w1 @ replicate n
              (telegram_request (the (TELEGRAM_BOT_TOKEN ev)) (the (TELEGRAM_CHAT_ID ev))
                 (failure_text ex))"
    by blast
  from main_failure [OF assms(1,2) s(1)] s(2)
  have m: "snd (main e ev w) =
      (case fst (send_telegram e (the (TELEGRAM_BOT_TOKEN ev)) (the (TELEGRAM_CHAT_ID ev))
                     (failure_text ex) (logging ERROR ''Unhandled error in vix_alert'' w1)) of
         Inr js \<Rightarrow> snd (send_telegram e (the (TELEGRAM_BOT_TOKEN ev))
                     (the (TELEGRAM_CHAT_ID ev))
                     (failure_text ex) (logging ERROR ''Unhandled error in vix_alert'' w1))
       | Inl ex2 \<Rightarrow>
           logging ERROR ''Also failed to send failure message to Telegram''
             (snd (send_telegram e (the (TELEGRAM_BOT_TOKEN ev)) (the (TELEGRAM_CHAT_ID ev))
                     (failure_text ex) (logging ERROR ''Unhandled error in vix_alert'' w1))))"
    by (simp add: Let_def)
  show ?thesis
    unfolding Let_def using m1 t m n by blast
qed

text \<open>
  The theorem on a run in which every download and every POST fails: the exit code is 1,
  the failure text was posted three times and the last log line records the failed
  notification.
\<close>

theorem secondary_failure_swallowed_witness:
  "fst (main (services (\<lambda>k. Inl (ExternalError ''down'')) (\<lambda>k. Inl (ExternalError ''mute'')))
          credentials world0) = 1
   \<and> posts (snd (main (services (\<lambda>k. Inl (ExternalError ''down''))
                          (\<lambda>k. Inl (ExternalError ''mute''))) credentials world0))
       = replicate 3 (telegram_request ''T'' ''C'' (failure_text (ExternalError ''down'')))
   \<and> last (log_lines (snd (main (services (\<lambda>k. Inl (ExternalError ''down''))
                          (\<lambda>k. Inl (ExternalError ''mute''))) credentials world0)))
       = (ERROR, ''Also failed to send failure message to Telegram'')"
proof -
  let ?e = "services (\<lambda>k. Inl (ExternalError ''down'')) (\<lambda>k. Inl (ExternalError ''mute''))"
  let ?sp = "success_path ?e ''T'' ''C'' ''2010-01-01'' world0"
  let ?txt = "failure_text (ExternalError ''down'')"
  let ?w2 = "logging ERROR ''Unhandled error in vix_alert'' (snd ?sp)"
  let ?st = "send_telegram ?e ''T'' ''C'' ?txt ?w2"
  have "\<forall>k<3. fetch_outcome ?e ''2010-01-01'' (downloads world0 + k)
             = Inl ((\<lambda>k. ExternalError ''down'') k)"
    by (simp add: fetch_outcome_def services_def)
  from fetch_vix_all_fail [OF this]
  have f: "fst (fetch_vix ?e ''2010-01-01'' world0) = Inl (ExternalError ''down'')"
    "posts (snd (fetch_vix ?e ''2010-01-01'' world0)) = posts world0"
    by simp_all
  from success_path_fetch_fail [OF f(1), of "''T''" "''C''"]
  have sp: "?sp = (Inl (ExternalError ''down''), snd ?sp)"
    and p: "posts (snd ?sp) = []"
    using f(2) by (simp_all add: world0_def)
  have "\<forall>k<3. send_outcome ?e (telegram_request ''T'' ''C'' ?txt) (length (posts ?w2) + k)
             = Inl ((\<lambda>k. ExternalError ''mute'') k)"
    by (simp add: send_outcome_def services_def)
  from send_telegram_all_fail [OF this]
  have st: "fst ?st = Inl (ExternalError ''mute'')"
    "posts (snd ?st) = replicate 3 (telegram_request ''T'' ''C'' ?txt)"
    using p by simp_all
  from secondary_failure_swallowed [of credentials ?e world0 "ExternalError ''down''" "snd ?sp"]
    sp
  have "fst (main ?e credentials world0) = 1"
    "snd (main ?e credentials world0) =
       (case fst ?st of
          Inr js \<Rightarrow> snd ?st
        | Inl ex2 \<Rightarrow>
            logging ERROR ''Also failed to send failure message to Telegram'' (snd ?st))"
    by (simp_all add: credentials_truthy Let_def)
  with st show ?thesis by simp
qed


section \<open>Properties of the join\<close>

lemma ewm_loop_length [simp]: "length (ewm_loop alpha acc vals) = length vals"
  by (induction vals arbitrary: acc) (simp_all add: Let_def)

lemma ewm_mean_length [simp]: "length (ewm_mean com vals) = length vals"
  by (cases vals) (simp_all add: ewm_mean_def Let_def)

lemma compute_ewma_index:
  assumes "compute_ewma vix lam = Inr vix_ewma"
  shows "length vix_ewma = length vix" "map fst vix_ewma = map fst vix"
  using assms by (auto simp add: compute_ewma_def Let_def split: if_splits)

lemma pd_concat_nth:
  assumes "length b = length a" "i < length a"
  shows "pd_concat a b ! i = (fst (a ! i), snd (a ! i), snd (b ! i))"
  using assms by (simp add: pd_concat_def case_prod_beta)

lemma pd_concat_length: "length b = length a \<Longrightarrow> length (pd_concat a b) = length a"
  by (simp add: pd_concat_def)

lemma dropna_member_row:
  "r \<in> set (dropna df) \<longleftrightarrow> r \<in> set df \<and> fst (snd r) \<noteq> None \<and> snd (snd r) \<noteq> None"
  by (auto simp add: dropna_def)

lemma latest_observation_empty:
  assumes "compute_ewma vix DEFAULT_LAMBDA = Inr vix_ewma"
    and "dropna (pd_concat vix vix_ewma) = []"
  shows "latest_observation vix = Inl (RuntimeError MSG_EMPTY_FRAME)"
  using assms by (simp add: latest_observation_def)

lemma fetch_vix_posts: "posts (snd (fetch_vix e sd w)) = posts w"
  by (simp add: fetch_vix_def fetch_loop_posts)

text \<open>
  Claim C6.  The join pairs the raw and the smoothed value of each date, row by row, and
  \<^verbatim>\<open>dropna\<close> keeps exactly the rows in which both are defined.  When the fetched series
  leaves no row, the success path raises before any message is built, \<^verbatim>\<open>main\<close> exits with
  code 1 and every request posted in the run is the failure notification, posted by one
  call of the notifier, one to three times.  The same holds when every download is answered
  by an empty frame.
\<close>

theorem empty_join_fatal:
  "(compute_ewma vix DEFAULT_LAMBDA = Inr vix_ewma \<longrightarrow>
        length (pd_concat vix vix_ewma) = length vix
      \<and> (\<forall>i<length vix. fst (vix_ewma ! i) = fst (vix ! i)
            \<and> pd_concat vix vix_ewma ! i = (fst (vix ! i), snd (vix ! i), snd (vix_ewma ! i)))
      \<and> (\<forall>r. r \<in> set (dropna (pd_concat vix vix_ewma)) \<longleftrightarrow>
               r \<in> set (pd_concat vix vix_ewma)
             \<and> fst (snd r) \<noteq> None \<and> snd (snd r) \<noteq> None))
   \<and> (truthy (TELEGRAM_BOT_TOKEN ev) \<and> truthy (TELEGRAM_CHAT_ID ev)
        \<and> fst (fetch_vix e (DEFAULT_START ev) w) = Inr (Some vix)
        \<and> compute_ewma vix DEFAULT_LAMBDA = Inr vix_ewma
        \<and> dropna (pd_concat vix vix_ewma) = [] \<longrightarrow>
        fst (success_path e (the (TELEGRAM_BOT_TOKEN ev)) (the (TELEGRAM_CHAT_ID ev))
               (DEFAULT_START ev) w) = Inl (RuntimeError MSG_EMPTY_FRAME)
      \<and> fst (main e ev w) = 1
      \<and> (\<exists>n. 1 \<le> n \<and> n \<le> 3
           \<and> posts (snd (main e ev w)) = posts w @ replicate n
               (telegram_request (the (TELEGRAM_BOT_TOKEN ev)) (the (TELEGRAM_CHAT_ID ev))
                  (failure_text (RuntimeError MSG_EMPTY_FRAME)))))
   \<and> (truthy (TELEGRAM_BOT_TOKEN ev) \<and> truthy (TELEGRAM_CHAT_ID ev)
        \<and> (\<forall>k<3. \<exists>df. yf_download e (downloads w + k) (DEFAULT_START ev) = Inr df
                    \<and> df_empty df) \<longrightarrow>
        fst (fetch_vix e (DEFAULT_START ev) w) = Inl (RuntimeError MSG_MISSING_CLOSE)
      \<and> fst (main e ev w) = 1
      \<and> (\<exists>n. 1 \<le> n \<and> n \<le> 3
           \<and> posts (snd (main e ev w)) = posts w @ replicate n
               (telegram_request (the (TELEGRAM_BOT_TOKEN ev)) (the (TELEGRAM_CHAT_ID ev))
                  (failure_text (RuntimeError MSG_MISSING_CLOSE)))))"
proof (intro conjI impI)
  assume c: "compute_ewma vix DEFAULT_LAMBDA = Inr vix_ewma"
  note ix = compute_ewma_index [OF c]
  show "length (pd_concat vix vix_ewma) = length vix"
    by (rule pd_concat_length [OF ix(1)])
  show "\<forall>i<length vix. fst (vix_ewma ! i) = fst (vix ! i)
            \<and> pd_concat vix vix_ewma ! i = (fst (vix ! i), snd (vix ! i), snd (vix_ewma ! i))"
  proof (intro allI impI conjI)
    fix i assume i: "i < length vix"
    with ix have "map fst vix_ewma ! i = map fst vix ! i" by simp
    with i ix(1) show "fst (vix_ewma ! i) = fst (vix ! i)" by simp
    from pd_concat_nth [OF ix(1) i]
    show "pd_concat vix vix_ewma ! i = (fst (vix ! i), snd (vix ! i), snd (vix_ewma ! i))" .
  qed
  show "\<forall>r. r \<in> set (dropna (pd_concat vix vix_ewma)) \<longleftrightarrow>
               r \<in> set (pd_concat vix vix_ewma)
             \<and> fst (snd r) \<noteq> None \<and> snd (snd r) \<noteq> None"
    by (simp add: dropna_member_row)
next
  let ?tok = "the (TELEGRAM_BOT_TOKEN ev)" and ?chat = "the (TELEGRAM_CHAT_ID ev)"
  let ?sd = "DEFAULT_START ev"
  assume a: "truthy (TELEGRAM_BOT_TOKEN ev) \<and> truthy (TELEGRAM_CHAT_ID ev)
        \<and> fst (fetch_vix e ?sd w) = Inr (Some vix)
        \<and> compute_ewma vix DEFAULT_LAMBDA = Inr vix_ewma
        \<and> dropna (pd_concat vix vix_ewma) = []"
  then have lo: "latest_observation vix = Inl (RuntimeError MSG_EMPTY_FRAME)"
    by (simp add: latest_observation_empty)
  from a have f: "fst (fetch_vix e ?sd w) = Inr (Some vix)" by simp
  from success_path_observation_fail [OF f lo, of ?tok ?chat]
  have sp: "success_path e ?tok ?chat ?sd w =
              (Inl (RuntimeError MSG_EMPTY_FRAME), snd (fetch_vix e ?sd w))" .
  then show "fst (success_path e ?tok ?chat ?sd w) = Inl (RuntimeError MSG_EMPTY_FRAME)"
    by simp
  from a have t: "truthy (TELEGRAM_BOT_TOKEN ev)" "truthy (TELEGRAM_CHAT_ID ev)" by simp_all
  from main_failure_posts [OF t sp]
  show "fst (main e ev w) = 1"
    "\<exists>n. 1 \<le> n \<and> n \<le> 3
           \<and> posts (snd (main e ev w)) = posts w @ replicate n
               (telegram_request ?tok ?chat (failure_text (RuntimeError MSG_EMPTY_FRAME)))"
    by (auto simp add: fetch_vix_posts)
next
  let ?tok = "the (TELEGRAM_BOT_TOKEN ev)" and ?chat = "the (TELEGRAM_CHAT_ID ev)"
  let ?sd = "DEFAULT_START ev"
  assume a: "truthy (TELEGRAM_BOT_TOKEN ev) \<and> truthy (TELEGRAM_CHAT_ID ev)
        \<and> (\<forall>k<3. \<exists>df. yf_download e (downloads w + k) ?sd = Inr df \<and> df_empty df)"
  then have "\<forall>k<3. fetch_outcome e ?sd (downloads w + k)
                = Inl ((\<lambda>k. RuntimeError MSG_MISSING_CLOSE) k)"
    by (auto simp add: fetch_outcome_def)
  from fetch_vix_all_fail [OF this]
  show f: "fst (fetch_vix e ?sd w) = Inl (RuntimeError MSG_MISSING_CLOSE)" by simp
  from success_path_fetch_fail [OF f, of ?tok ?chat]
  have sp: "success_path e ?tok ?chat ?sd w =
              (Inl (RuntimeError MSG_MISSING_CLOSE), snd (fetch_vix e ?sd w))" .
  from a have t: "truthy (TELEGRAM_BOT_TOKEN ev)" "truthy (TELEGRAM_CHAT_ID ev)" by simp_all
  from main_failure_posts [OF t sp]
  show "fst (main e ev w) = 1"
    "\<exists>n. 1 \<le> n \<and> n \<le> 3
           \<and> posts (snd (main e ev w)) = posts w @ replicate n
               (telegram_request ?tok ?chat (failure_text (RuntimeError MSG_MISSING_CLOSE)))"
    by (auto simp add: fetch_vix_posts)
qed

text \<open>
  The theorem on a download whose two closes are both undefined, and on downloads that are
  all empty: both runs end with exit code 1 and post nothing but the failure notification.
\<close>

theorem empty_join_fatal_witness:
  "fst (fetch_vix (services (\<lambda>k. Inr frame_nan) (\<lambda>k. Inr response_ok)) ''2010-01-01'' world0)
     = Inr (Some [(day 2, None), (day 3, None)])
   \<and> compute_ewma [(day 2, None), (day 3, None)] DEFAULT_LAMBDA
     = Inr [(day 2, None), (day 3, None)]
   \<and> pd_concat [(day 2, None), (day 3, None)] [(day 2, None), (day 3, None)]
     = [(day 2, None, None), (day 3, None, None)]
   \<and> dropna [(day 2, None, None), (day 3, None, None)] = []
   \<and> fst (main (services (\<lambda>k. Inr frame_nan) (\<lambda>k. Inr response_ok)) credentials world0) = 1
   \<and> (\<exists>n. 1 \<le> n \<and> n \<le> 3
        \<and> posts (snd (main (services (\<lambda>k. Inr frame_nan) (\<lambda>k. Inr response_ok))
                         credentials world0))
            = replicate n (telegram_request ''T'' ''C''
                (failure_text (RuntimeError MSG_EMPTY_FRAME))))
   \<and> df_empty frame_empty
   \<and> fst (main (services (\<lambda>k. Inr frame_empty) (\<lambda>k. Inr response_ok)) credentials world0) = 1
   \<and> (\<exists>n. 1 \<le> n \<and> n \<le> 3
        \<and> posts (snd (main (services (\<lambda>k. Inr frame_empty) (\<lambda>k. Inr response_ok))
                         credentials world0))
            = replicate n (telegram_request ''T'' ''C''
                (failure_text (RuntimeError MSG_MISSING_CLOSE))))"
proof -
  let ?nan = "services (\<lambda>k. Inr frame_nan) (\<lambda>k. Inr response_ok)"
  let ?emp = "services (\<lambda>k. Inr frame_empty) (\<lambda>k. Inr response_ok)"
  let ?vix = "[(day 2, None), (day 3, None)] :: series"
  have "fetch_outcome ?nan ''2010-01-01'' (downloads world0) = Inr ?vix"
    by (simp add: fetch_outcome_def services_def frame_nan_def df_empty_def df_has_column_def
        df_getitem_def upt_rec)
  from fetch_vix_success_0(1) [OF this]
  have 1: "fst (fetch_vix ?nan ''2010-01-01'' world0) = Inr (Some ?vix)" .
  have 2: "compute_ewma ?vix DEFAULT_LAMBDA = Inr ?vix"
    by (simp add: compute_ewma_def DEFAULT_LAMBDA_def ewm_mean_def ewm_first_def ewm_out_def
        ewm_update_def Let_def)
  have 3: "pd_concat ?vix ?vix = [(day 2, None, None), (day 3, None, None)]"
    by (simp add: pd_concat_def)
  have 4: "dropna [(day 2, None, None), (day 3, None, None)] = []"
    by (simp add: dropna_def)
  have em: "df_empty frame_empty" by (simp add: df_empty_def frame_empty_def)
  then have 5: "\<forall>k<3. \<exists>df. yf_download ?emp (downloads world0 + k)
       (DEFAULT_START credentials) = Inr df \<and> df_empty df"
    by (simp add: services_def)
  from empty_join_fatal [of ?vix ?vix credentials ?nan world0] 1 2 3 4
  have A: "fst (main ?nan credentials world0) = 1
      \<and> (\<exists>n. 1 \<le> n \<and> n \<le> 3
           \<and> posts (snd (main ?nan credentials world0)) = posts world0 @ replicate n
               (telegram_request ''T'' ''C'' (failure_text (RuntimeError MSG_EMPTY_FRAME))))"
    by (simp add: credentials_truthy)
  from empty_join_fatal [of _ _ credentials ?emp world0] 5
  have B: "fst (main ?emp credentials world0) = 1
      \<and> (\<exists>n. 1 \<le> n \<and> n \<le> 3
           \<and> posts (snd (main ?emp credentials world0)) = posts world0 @ replicate n
               (telegram_request ''T'' ''C'' (failure_text (RuntimeError MSG_MISSING_CLOSE))))"
    by (simp add: credentials_truthy)
  from 1 2 3 4 em A B show ?thesis
    by (simp add: world0_def)
qed

end
